theory Spec2Isabelle
  imports Main "HOL-Library.Sublist" "HOL-Library.AList"
begin

section \<open>Errors, panics and Go interface values\<close>

text \<open>
  An \<open>error\<close> value of the Go code.  \<open>ErrDefault404\<close> is \<open>golangsdk.ErrDefault404\<close>, the
  error the vendor SDK returns for an HTTP 404; \<open>ErrOther\<close> is any other error of the vendor
  SDK or of the client configuration.  \<open>ErrSyntax\<close> and \<open>ErrRange\<close> are the two errors of
  \<open>strconv.ParseInt\<close>.  \<open>TimeoutError\<close>, \<open>NotFoundError\<close> and \<open>UnexpectedStateError\<close> are the
  errors of the plugin SDK's wait loop.  \<open>Errorf fmt args\<close> is \<open>fmt.Errorf\<close> /
  \<open>fmterr.Errorf\<close> with its format string and the errors formatted into it.
\<close>

datatype error =
    ErrDefault404
  | ErrOther string
  | ErrSyntax
  | ErrRange
  | TimeoutError
  | NotFoundError
  | UnexpectedStateError string
  | Errorf string "error list"

text \<open>A Go call either returns or panics (here: a nil pointer dereference).\<close>

datatype 'a outcome = Return 'a | Panic

text \<open>
  A value of type \<open>interface{}\<close>: the untyped \<open>nil\<close>, or a value of a concrete type.  A nil
  pointer stored in an interface is \<open>IVal None\<close>, which is not \<open>INil\<close>.
\<close>

datatype 'a iface = INil | IVal 'a

text \<open>The type assertion \<open>err.(golangsdk.ErrDefault404)\<close>.\<close>

definition is_ErrDefault404 :: "error \<Rightarrow> bool" where
  "is_ErrDefault404 err = (err = ErrDefault404)"

text \<open>
  Modelled from the spec: the result types of the vendor SDK are not among the sources of
  this repository.  \<open>Extract()\<close> turns the result of a call into a pointer and an error;
  when the call failed the pointer is nil, otherwise it points to the decoded value.
\<close>

definition Extract :: "error + 'a \<Rightarrow> 'a option \<times> error option" where
  "Extract res = (case res of Inl err \<Rightarrow> (None, Some err) | Inr v \<Rightarrow> (Some v, None))"

section \<open>Request and response types of the vendor SDK\<close>

subsection \<open>Routers\<close>

record GatewayInfo =
  NetworkID :: string
  EnableSNAT :: "bool option"

text \<open>\<open>RouterCreateOpts\<close>: \<open>routers.CreateOpts\<close> together with the value specs.\<close>

record RouterCreateOpts =
  RCreate_Name :: string
  RCreate_AdminStateUp :: "bool option"
  RCreate_Distributed :: "bool option"
  RCreate_TenantID :: string
  RCreate_GatewayInfo :: "GatewayInfo option"
  RCreate_ValueSpecs :: "(string \<times> string) list"

record RouterUpdateOpts =
  RUpdate_Name :: string
  RUpdate_AdminStateUp :: "bool option"
  RUpdate_GatewayInfo :: "GatewayInfo option"

record Router =
  Router_ID :: string
  Router_Name :: string
  Router_Status :: string
  Router_AdminStateUp :: bool
  Router_Distributed :: bool
  Router_TenantID :: string
  Router_GatewayInfo :: GatewayInfo

subsection \<open>File shares\<close>

record ShareCreateOpts =
  SCreate_ShareProto :: string
  SCreate_Size :: int
  SCreate_Name :: string
  SCreate_Description :: string
  SCreate_IsPublic :: bool
  SCreate_Metadata :: "(string \<times> string) list"
  SCreate_AvailabilityZone :: string

record GrantAccessOpts =
  AccessLevel :: string
  AccessType :: string
  AccessTo :: string

record Share =
  Share_ID :: string
  Share_Name :: string
  Share_ShareProto :: string
  Share_Status :: string
  Share_Size :: int
  Share_Description :: string
  Share_ShareType :: string
  Share_VolumeType :: string
  Share_IsPublic :: bool
  Share_AvailabilityZone :: string
  Share_ExportLocation :: string
  Share_Host :: string
  Share_Metadata :: "(string \<times> string) list"

record AccessRight =
  Right_ID :: string
  Right_State :: string
  Right_AccessTo :: string
  Right_AccessType :: string
  Right_AccessLevel :: string

subsection \<open>WAF precise protection rules\<close>

record Condition =
  Category :: string
  Index :: string
  Logic :: int
  Contents :: "string list"

record Action =
  Action_Category :: string

record PreciseCreateOpts =
  PCreate_Name :: string
  PCreate_Time :: bool
  PCreate_Start :: int
  PCreate_End :: int
  PCreate_Conditions :: "Condition list"
  PCreate_Action :: Action
  PCreate_Priority :: "int option"

record Precise =
  Precise_Id :: string
  Precise_PolicyID :: string
  Precise_Name :: string
  Precise_Time :: bool
  Precise_Start :: int
  Precise_End :: int
  Precise_Conditions :: "Condition list"
  Precise_Action :: Action
  Precise_Priority :: int

section \<open>The remote side\<close>

text \<open>The calls of the vendor SDK that reach the remote API, with their arguments.\<close>

datatype call =
    RoutersCreate RouterCreateOpts
  | RoutersGet string
  | RoutersUpdate string RouterUpdateOpts
  | RoutersDelete string
  | SharesCreate ShareCreateOpts
  | SharesGet string
  | SharesGrantAccess string GrantAccessOpts
  | SharesListAccessRights string
  | SharesDelete string
  | PreciseCreate string PreciseCreateOpts
  | PreciseGet string string

text \<open>
  \<open>meta\<close>, the provider configuration (\<open>cfg.Config\<close>) with the service clients it hands
  out.  The remote cloud is a state of an arbitrary type \<open>'w\<close>; every API call takes the
  state it finds and returns its result with the state it leaves.  \<open>GetRegion\<close> maps the
  \<open>region\<close> attribute of the resource to the region used; a client constructor yields
  \<open>None\<close> when the client was obtained, and the error otherwise.
\<close>

record 'w Config =
  GetRegion :: "string \<Rightarrow> string"
  NetworkingV2Client :: "string \<Rightarrow> error option"
  SfsV2Client :: "string \<Rightarrow> error option"
  WafV1Client :: "string \<Rightarrow> error option"
  routers_Create :: "RouterCreateOpts \<Rightarrow> 'w \<Rightarrow> (error + Router) \<times> 'w"
  routers_Get :: "string \<Rightarrow> 'w \<Rightarrow> (error + Router) \<times> 'w"
  routers_Update :: "string \<Rightarrow> RouterUpdateOpts \<Rightarrow> 'w \<Rightarrow> (error + Router) \<times> 'w"
  routers_Delete :: "string \<Rightarrow> 'w \<Rightarrow> error option \<times> 'w"
  shares_Create :: "ShareCreateOpts \<Rightarrow> 'w \<Rightarrow> (error + Share) \<times> 'w"
  shares_Get :: "string \<Rightarrow> 'w \<Rightarrow> (error + Share) \<times> 'w"
  shares_GrantAccess :: "string \<Rightarrow> GrantAccessOpts \<Rightarrow> 'w \<Rightarrow> (error + AccessRight) \<times> 'w"
  shares_ListAccessRights :: "string \<Rightarrow> 'w \<Rightarrow> (error + AccessRight list) \<times> 'w"
  shares_Delete :: "string \<Rightarrow> 'w \<Rightarrow> error option \<times> 'w"
  precise_Create :: "string \<Rightarrow> PreciseCreateOpts \<Rightarrow> 'w \<Rightarrow> (error + Precise) \<times> 'w"
  precise_Get :: "string \<Rightarrow> string \<Rightarrow> 'w \<Rightarrow> (error + Precise) \<times> 'w"

text \<open>The remote state together with the log of the API calls issued so far.\<close>

record 'w remote =
  world :: 'w
  calls :: "call list"

text \<open>Issuing one API call: it acts on the remote state and is appended to the log.\<close>

definition invoke :: "call \<Rightarrow> ('w \<Rightarrow> 'a \<times> 'w) \<Rightarrow> 'w remote \<Rightarrow> 'a \<times> 'w remote" where
  "invoke c f s = (case f (world s) of (r, w') \<Rightarrow> (r, \<lparr>world = w', calls = calls s @ [c]\<rparr>))"

section \<open>Decimal integers: \<open>strconv\<close>\<close>

text \<open>
  Modelled from the spec: \<open>strconv.ParseInt(s, 10, 64)\<close> and \<open>strconv.FormatInt(i, 10)\<close>
  belong to the Go standard library and are not among the sources of this repository; the
  model follows their documented behaviour for base 10 and 64 bits.  \<open>ParseInt\<close> accepts
  an optional sign followed by at least one decimal digit and nothing else, and fails with
  \<open>ErrRange\<close> outside the signed 64-bit range.  \<open>FormatInt\<close> writes a minus sign for a
  negative number and then the decimal digits, without leading zeros.
\<close>

definition digit_val :: "char \<Rightarrow> nat option" where
  "digit_val c = (let n = (of_char c :: nat) in if 48 \<le> n \<and> n \<le> 57 then Some (n - 48) else None)"

fun parse_digits :: "nat \<Rightarrow> string \<Rightarrow> nat option" where
  "parse_digits acc [] = Some acc"
| "parse_digits acc (c # cs) =
     (case digit_val c of None \<Rightarrow> None | Some v \<Rightarrow> parse_digits (acc * 10 + v) cs)"

definition ParseInt :: "string \<Rightarrow> error + int" where
  "ParseInt s =
     (case s of
        [] \<Rightarrow> Inl ErrSyntax
      | c # cs \<Rightarrow>
          let neg = (c = CHR ''-'');
              ds = (if c = CHR ''+'' \<or> c = CHR ''-'' then cs else s)
          in if ds = [] then Inl ErrSyntax
             else (case parse_digits 0 ds of
                     None \<Rightarrow> Inl ErrSyntax
                   | Some un \<Rightarrow>
                       if \<not> neg \<and> un \<ge> 2 ^ 63 then Inl ErrRange
                       else if neg \<and> un > 2 ^ 63 then Inl ErrRange
                       else Inr (if neg then - int un else int un)))"

definition digit_char :: "nat \<Rightarrow> char" where
  "digit_char n = ''0123456789'' ! n"

fun format_digits :: "nat \<Rightarrow> string" where
  "format_digits n = (if n < 10 then [digit_char n] else format_digits (n div 10) @ [digit_char (n mod 10)])"

declare format_digits.simps [simp del]

definition FormatInt :: "int \<Rightarrow> string" where
  "FormatInt i = (if i < 0 then CHR ''-'' # format_digits (nat (- i)) else format_digits (nat i))"

section \<open>Loops over slices\<close>

text \<open>
  The loop \<open>for i, v := range xs { ys[i] = f(v) }\<close>, started at index \<open>i\<close>.  The source
  allocates \<open>ys\<close> with \<open>make(..., len(xs))\<close>, so every index is in range.
\<close>

fun range_store :: "('a \<Rightarrow> 'b) \<Rightarrow> 'a list \<Rightarrow> nat \<Rightarrow> 'b list \<Rightarrow> 'b list" where
  "range_store f [] i ys = ys"
| "range_store f (v # xs) i ys = range_store f xs (Suc i) (ys[i := f v])"

text \<open>The loop \<open>for _, v := range xs { acc = append(acc, f(v)) }\<close>.\<close>

fun range_append :: "('a \<Rightarrow> 'b) \<Rightarrow> 'a list \<Rightarrow> 'b list \<Rightarrow> 'b list" where
  "range_append f [] acc = acc"
| "range_append f (v # xs) acc = range_append f xs (acc @ [f v])"

section \<open>WAF precise protection rule\<close>

text \<open>One block of the \<open>conditions\<close> list of the resource.\<close>

record ConditionBlock =
  category :: string
  index :: string
  logic :: int
  contents :: "string list"

text \<open>
  The resource data \<open>d\<close> of a WAF precise protection rule: the resource ID and one field
  per attribute of the schema.  An unset string attribute reads as the empty string.
\<close>

record PreciseData =
  waf_Id :: string
  waf_policy_id :: string
  waf_name :: string
  waf_time :: bool
  waf_start :: string
  waf_end :: string
  waf_conditions :: "ConditionBlock list"
  waf_action_category :: string
  waf_priority :: int

datatype waf_value =
    VString string
  | VBool bool
  | VInt int
  | VConditions "ConditionBlock list"

text \<open>
  \<open>d.Get(key)\<close> as an interface value: the attribute the schema declares under \<open>key\<close>, and
  nil for a key the schema does not declare.
\<close>

definition waf_Get :: "PreciseData \<Rightarrow> string \<Rightarrow> waf_value iface" where
  "waf_Get d key =
     (if key = ''policy_id'' then IVal (VString (waf_policy_id d))
      else if key = ''name'' then IVal (VString (waf_name d))
      else if key = ''time'' then IVal (VBool (waf_time d))
      else if key = ''start'' then IVal (VString (waf_start d))
      else if key = ''end'' then IVal (VString (waf_end d))
      else if key = ''conditions'' then IVal (VConditions (waf_conditions d))
      else if key = ''action_category'' then IVal (VString (waf_action_category d))
      else if key = ''priority'' then IVal (VInt (waf_priority d))
      else INil)"

fun is_zero_value :: "waf_value \<Rightarrow> bool" where
  "is_zero_value (VString s) = (s = [])"
| "is_zero_value (VBool b) = (\<not> b)"
| "is_zero_value (VInt i) = (i = 0)"
| "is_zero_value (VConditions cs) = (cs = [])"

text \<open>
  \<open>d.GetOk(key)\<close> of the plugin SDK: the value, and whether the key has been set to a
  value other than the zero value of its type.
\<close>

definition waf_GetOk :: "PreciseData \<Rightarrow> string \<Rightarrow> waf_value iface \<times> bool" where
  "waf_GetOk d key =
     (case waf_Get d key of
        INil \<Rightarrow> (INil, False)
      | IVal v \<Rightarrow> (IVal v, \<not> is_zero_value v))"

definition condition_of_block :: "ConditionBlock \<Rightarrow> Condition" where
  "condition_of_block cond =
     (let contents_raw = contents cond;
          contents = range_store (\<lambda>v. v) contents_raw 0 (replicate (length contents_raw) [])
      in \<lparr>Category = category cond, Index = index cond, Logic = logic cond,
          Contents = contents\<rparr>)"

definition getConditions :: "PreciseData \<Rightarrow> Condition list" where
  "getConditions d = range_append condition_of_block (waf_conditions d) []"

definition getPreciseAction :: "PreciseData \<Rightarrow> Action" where
  "getPreciseAction d = \<lparr>Action_Category = waf_action_category d\<rparr>"

definition block_of_condition :: "Condition \<Rightarrow> ConditionBlock" where
  "block_of_condition condition =
     \<lparr>category = Category condition, index = Index condition, logic = Logic condition,
      contents = Contents condition\<rparr>"

text \<open>An entry of \<open>make([]map[string]interface{}, n)\<close> before it is assigned.\<close>

definition nil_block :: ConditionBlock where
  "nil_block = \<lparr>category = [], index = [], logic = 0, contents = []\<rparr>"

definition resourceWafPreciseProtectionRuleV1Read ::
  "PreciseData \<Rightarrow> 'w Config \<Rightarrow> 'w remote \<Rightarrow> (error option \<times> PreciseData) \<times> 'w remote" where
  "resourceWafPreciseProtectionRuleV1Read d meta s =
     (case WafV1Client meta (GetRegion meta []) of
        Some err \<Rightarrow>
          ((Some (Errorf ''error creating OpenTelekomCloud WAF client: %s'' [err]), d), s)
      | None \<Rightarrow>
          let policy_id = waf_policy_id d
          in (case invoke (PreciseGet policy_id (waf_Id d)) (precise_Get meta policy_id (waf_Id d)) s of
               (Inl err, s') \<Rightarrow>
                 if is_ErrDefault404 err then ((None, d\<lparr>waf_Id := []\<rparr>), s')
                 else ((Some (Errorf ''error retrieving OpenTelekomCloud Waf Precise Protection Rule: %s'' [err]), d), s')
             | (Inr n, s') \<Rightarrow>
                 let conditions = range_store block_of_condition (Precise_Conditions n) 0
                                    (replicate (length (Precise_Conditions n)) nil_block)
                 in ((None, d\<lparr>waf_Id := Precise_Id n,
                               waf_policy_id := Precise_PolicyID n,
                               waf_name := Precise_Name n,
                               waf_time := Precise_Time n,
                               waf_start := FormatInt (Precise_Start n),
                               waf_end := FormatInt (Precise_End n),
                               waf_conditions := conditions,
                               waf_action_category := Action_Category (Precise_Action n),
                               waf_priority := Precise_Priority n\<rparr>), s')))"

definition resourceWafPreciseProtectionRuleV1Create ::
  "PreciseData \<Rightarrow> 'w Config \<Rightarrow> 'w remote \<Rightarrow> (error option \<times> PreciseData) \<times> 'w remote" where
  "resourceWafPreciseProtectionRuleV1Create d meta s =
     (case WafV1Client meta (GetRegion meta []) of
        Some err \<Rightarrow>
          ((Some (Errorf ''error creating OpenTelekomcomCloud WAF Client: %s'' [err]), d), s)
      | None \<Rightarrow>
          let priority = waf_priority d;
              createOpts = \<lparr>PCreate_Name = waf_name d, PCreate_Time = waf_time d,
                            PCreate_Start = 0, PCreate_End = 0,
                            PCreate_Conditions = getConditions d,
                            PCreate_Action = getPreciseAction d,
                            PCreate_Priority = Some priority\<rparr>
          in (case (if snd (waf_GetOk d ''start'')
                   then (case ParseInt (waf_start d) of
                           Inl err \<Rightarrow> Inl (Errorf ''error converting start: %s'' [err])
                         | Inr start \<Rightarrow> Inr (createOpts\<lparr>PCreate_Start := start\<rparr>))
                   else Inr createOpts) of
               Inl e \<Rightarrow> ((Some e, d), s)
             | Inr createOpts \<Rightarrow>
                 (case (if snd (waf_GetOk d ''cache_control'')
                        then (case ParseInt (waf_end d) of
                                Inl err \<Rightarrow> Inl (Errorf ''error converting end: %s'' [err])
                              | Inr end' \<Rightarrow> Inr (createOpts\<lparr>PCreate_End := end'\<rparr>))
                        else Inr createOpts) of
                    Inl e \<Rightarrow> ((Some e, d), s)
                  | Inr createOpts \<Rightarrow>
                      let policy_id = waf_policy_id d
                      in (case invoke (PreciseCreate policy_id createOpts)
                                (precise_Create meta policy_id createOpts) s of
                           (Inl err, s') \<Rightarrow>
                             ((Some (Errorf ''error creating OpenTelekomcomCloud WAF Precise Protection Rule: %s'' [err]), d), s')
                         | (Inr rule, s') \<Rightarrow>
                             resourceWafPreciseProtectionRuleV1Read (d\<lparr>waf_Id := Precise_Id rule\<rparr>) meta s'))))"

section \<open>The wait loop of the plugin SDK\<close>

text \<open>
  Modelled from the spec: \<open>resource.StateChangeConf\<close> and its \<open>WaitForState\<close> /
  \<open>WaitForStateContext\<close> belong to the Terraform plugin SDK and are not among the sources
  of this repository; the spec names them as "a generic polling state-machine for
  asynchronous resource transitions", and the model follows the SDK's documented loop.
  The loop calls \<open>Refresh\<close> again and again: an error of \<open>Refresh\<close> ends the wait with that
  error; a state in \<open>Target\<close> ends it with success; a state in \<open>Pending\<close> continues it; any
  other state ends it with an \<open>UnexpectedStateError\<close>; a nil result counts as "not found"
  and is tolerated \<open>NotFoundChecks\<close> times in a row.  Real time is not modelled: \<open>Timeout\<close>
  is the number of refreshes that fit into the configured timeout, and the wait ends with
  a \<open>TimeoutError\<close> when they are used up.  \<open>Delay\<close> and \<open>MinTimeout\<close> only space the
  refreshes and have no counterpart here.
\<close>

record ('r, 's) StateChangeConf =
  Pending :: "string list"
  Target :: "string list"
  Refresh :: "'s \<Rightarrow> ('r iface \<times> string \<times> error option) outcome \<times> 's"
  Timeout :: nat

definition NotFoundChecks :: nat where
  "NotFoundChecks = 20"

fun refresh_loop ::
  "('r, 's) StateChangeConf \<Rightarrow> nat \<Rightarrow> nat \<Rightarrow> 's \<Rightarrow> ('r iface \<times> error option) outcome \<times> 's" where
  "refresh_loop conf 0 notfoundTick s = (Return (INil, Some TimeoutError), s)"
| "refresh_loop conf (Suc n) notfoundTick s =
     (case Refresh conf s of
        (Panic, s1) \<Rightarrow> (Panic, s1)
      | (Return (res, currentState, Some err), s1) \<Rightarrow> (Return (res, Some err), s1)
      | (Return (res, currentState, None), s1) \<Rightarrow>
          if res = INil \<and> Target conf = [] then (Return (res, None), s1)
          else if res = INil then
            (if notfoundTick + 1 > NotFoundChecks then (Return (res, Some NotFoundError), s1)
             else refresh_loop conf n (notfoundTick + 1) s1)
          else if currentState \<in> set (Target conf) then (Return (res, None), s1)
          else if currentState \<in> set (Pending conf) then refresh_loop conf n 0 s1
          else if Pending conf \<noteq> [] then
            (Return (res, Some (UnexpectedStateError currentState)), s1)
          else refresh_loop conf n 0 s1)"

definition WaitForState ::
  "('r, 's) StateChangeConf \<Rightarrow> 's \<Rightarrow> ('r iface \<times> error option) outcome \<times> 's" where
  "WaitForState conf s = refresh_loop conf (Timeout conf) 0 s"

section \<open>Reading attributes of the resource data\<close>

text \<open>
  An optional boolean attribute is \<open>None\<close> when it has no value and \<open>Some b\<close> when it is set
  to \<open>b\<close>.  \<open>d.Get\<close> reads an attribute without a value as the zero value; \<open>d.GetOk\<close>
  reports \<open>ok\<close> only for a value other than the zero value.
\<close>

definition Get_bool :: "bool option \<Rightarrow> bool" where
  "Get_bool v = (case v of None \<Rightarrow> False | Some b \<Rightarrow> b)"

definition GetOk_bool :: "bool option \<Rightarrow> bool \<times> bool" where
  "GetOk_bool v = (Get_bool v, Get_bool v \<noteq> False)"

section \<open>Networking router\<close>

record RouterAttrs =
  rt_region :: string
  rt_name :: string
  rt_admin_state_up :: "bool option"
  rt_distributed :: "bool option"
  rt_external_gateway :: string
  rt_enable_snat :: "bool option"
  rt_tenant_id :: string
  rt_value_specs :: "(string \<times> string) list"

text \<open>
  The resource data \<open>d\<close> of a router: the resource ID, the attributes of the prior state
  (\<open>rt_old\<close>, the old side of \<open>d.HasChange\<close>), the attributes that \<open>d.Get\<close> reads and
  \<open>d.Set\<close> writes (\<open>rt_new\<close>), and the create and delete timeouts, counted in refreshes
  of the wait loop.
\<close>

record RouterData =
  rt_Id :: string
  rt_old :: RouterAttrs
  rt_new :: RouterAttrs
  rt_timeout_create :: nat
  rt_timeout_delete :: nat

definition waitForRouterActive ::
  "'w Config \<Rightarrow> string \<Rightarrow> 'w remote \<Rightarrow> (Router option iface \<times> string \<times> error option) outcome \<times> 'w remote" where
  "waitForRouterActive meta routerId s =
     (case invoke (RoutersGet routerId) (routers_Get meta routerId) s of
        (res, s1) \<Rightarrow>
          (case Extract res of
             (r, Some err) \<Rightarrow>
               (case r of
                  None \<Rightarrow> (Panic, s1)
                | Some r' \<Rightarrow> (Return (INil, Router_Status r', Some err), s1))
           | (r, None) \<Rightarrow>
               (case r of
                  None \<Rightarrow> (Panic, s1)
                | Some r' \<Rightarrow> (Return (IVal r, Router_Status r', None), s1))))"

definition waitForRouterDelete ::
  "'w Config \<Rightarrow> string \<Rightarrow> 'w remote \<Rightarrow> (Router option iface \<times> string \<times> error option) outcome \<times> 'w remote" where
  "waitForRouterDelete meta routerId s =
     (case invoke (RoutersGet routerId) (routers_Get meta routerId) s of
        (res, s1) \<Rightarrow>
          (case Extract res of
             (r, Some err) \<Rightarrow>
               if is_ErrDefault404 err then (Return (IVal r, ''DELETED'', None), s1)
               else (Return (IVal r, ''ACTIVE'', Some err), s1)
           | (r, None) \<Rightarrow>
               (case invoke (RoutersDelete routerId) (routers_Delete meta routerId) s1 of
                  (Some err, s2) \<Rightarrow>
                    if is_ErrDefault404 err then (Return (IVal r, ''DELETED'', None), s2)
                    else (Return (IVal r, ''ACTIVE'', Some err), s2)
                | (None, s2) \<Rightarrow> (Return (IVal r, ''ACTIVE'', None), s2))))"

definition resourceNetworkingRouterV2Read ::
  "RouterData \<Rightarrow> 'w Config \<Rightarrow> 'w remote \<Rightarrow> (error option \<times> RouterData) \<times> 'w remote" where
  "resourceNetworkingRouterV2Read d meta s =
     (case NetworkingV2Client meta (GetRegion meta (rt_region (rt_new d))) of
        Some err \<Rightarrow>
          ((Some (Errorf ''error creating OpenTelekomCloud networking client: %s'' [err]), d), s)
      | None \<Rightarrow>
          (case invoke (RoutersGet (rt_Id d)) (routers_Get meta (rt_Id d)) s of
             (Inl err, s1) \<Rightarrow>
               if is_ErrDefault404 err then ((None, d\<lparr>rt_Id := []\<rparr>), s1)
               else ((Some (Errorf ''error retrieving OpenTelekomCloud Neutron Router: %s'' [err]), d), s1)
           | (Inr n, s1) \<Rightarrow>
               ((None, d\<lparr>rt_new := (rt_new d)
                             \<lparr>rt_name := Router_Name n,
                              rt_admin_state_up := Some (Router_AdminStateUp n),
                              rt_distributed := Some (Router_Distributed n),
                              rt_tenant_id := Router_TenantID n,
                              rt_external_gateway := NetworkID (Router_GatewayInfo n),
                              rt_enable_snat := EnableSNAT (Router_GatewayInfo n),
                              rt_region := GetRegion meta (rt_region (rt_new d))\<rparr>\<rparr>), s1)))"

text \<open>
  Lines 90 to 122 of \<open>resourceNetworkingRouterV2Create\<close>: the create options, or the
  error about \<open>enable_snat\<close>.
\<close>

definition routerCreateOpts :: "RouterData \<Rightarrow> (error + RouterCreateOpts) outcome" where
  "routerCreateOpts d =
     (let a = rt_new d;
          createOpts = \<lparr>RCreate_Name = rt_name a, RCreate_AdminStateUp = None,
                        RCreate_Distributed = None, RCreate_TenantID = rt_tenant_id a,
                        RCreate_GatewayInfo = None, RCreate_ValueSpecs = rt_value_specs a\<rparr>;
          createOpts = (case GetOk_bool (rt_admin_state_up a) of
                          (asu, True) \<Rightarrow> createOpts\<lparr>RCreate_AdminStateUp := Some asu\<rparr>
                        | (asu, False) \<Rightarrow> createOpts);
          createOpts = (case GetOk_bool (rt_distributed a) of
                          (dist, True) \<Rightarrow> createOpts\<lparr>RCreate_Distributed := Some dist\<rparr>
                        | (dist, False) \<Rightarrow> createOpts);
          externalGateway = rt_external_gateway a;
          createOpts = (if externalGateway \<noteq> []
                        then createOpts\<lparr>RCreate_GatewayInfo :=
                               Some \<lparr>NetworkID = externalGateway, EnableSNAT = None\<rparr>\<rparr>
                        else createOpts)
      in (case GetOk_bool (rt_enable_snat a) of
            (es, True) \<Rightarrow>
              if externalGateway = []
              then Return (Inl (Errorf ''setting enable_snat requires external_gateway to be set'' []))
              else (case RCreate_GatewayInfo createOpts of
                      None \<Rightarrow> Panic
                    | Some gatewayInfo \<Rightarrow>
                        Return (Inr (createOpts\<lparr>RCreate_GatewayInfo :=
                                  Some (gatewayInfo\<lparr>EnableSNAT := Some es\<rparr>)\<rparr>)))
          | (es, False) \<Rightarrow> Return (Inr createOpts)))"

text \<open>The \<open>stateConf\<close> of \<open>resourceNetworkingRouterV2Create\<close> for the created router \<open>n\<close>.\<close>

definition routerCreateStateConf ::
  "RouterData \<Rightarrow> 'w Config \<Rightarrow> Router \<Rightarrow> (Router option, 'w remote) StateChangeConf" where
  "routerCreateStateConf d meta n =
     \<lparr>Pending = [''BUILD'', ''PENDING_CREATE'', ''PENDING_UPDATE''],
      Target = [''ACTIVE''],
      Refresh = waitForRouterActive meta (Router_ID n),
      Timeout = rt_timeout_create d\<rparr>"

definition resourceNetworkingRouterV2Create ::
  "RouterData \<Rightarrow> 'w Config \<Rightarrow> 'w remote \<Rightarrow> (error option \<times> RouterData) outcome \<times> 'w remote" where
  "resourceNetworkingRouterV2Create d meta s =
     (case NetworkingV2Client meta (GetRegion meta (rt_region (rt_new d))) of
        Some err \<Rightarrow>
          (Return (Some (Errorf ''error creating OpenTelekomCloud networking client: %s'' [err]), d), s)
      | None \<Rightarrow>
          (case routerCreateOpts d of
             Panic \<Rightarrow> (Panic, s)
           | Return (Inl e) \<Rightarrow> (Return (Some e, d), s)
           | Return (Inr createOpts) \<Rightarrow>
               (case invoke (RoutersCreate createOpts) (routers_Create meta createOpts) s of
                  (Inl err, s1) \<Rightarrow>
                    (Return (Some (Errorf ''error creating OpenTelekomCloud Neutron router: %s'' [err]), d), s1)
                | (Inr n, s1) \<Rightarrow>
                    (let stateConf = routerCreateStateConf d meta n
                     in (case WaitForState stateConf s1 of
                           (Panic, s2) \<Rightarrow> (Panic, s2)
                         | (Return (res, err), s2) \<Rightarrow>
                             (case resourceNetworkingRouterV2Read (d\<lparr>rt_Id := Router_ID n\<rparr>) meta s2 of
                                (r, s3) \<Rightarrow> (Return r, s3)))))))"

text \<open>
  \<open>resourceNetworkingRouterV2Update\<close>.  The lock on \<open>osMutexKV\<close> serialises concurrent
  updates of one router and has no counterpart in this sequential model.
\<close>

definition resourceNetworkingRouterV2Update ::
  "RouterData \<Rightarrow> 'w Config \<Rightarrow> 'w remote \<Rightarrow> (error option \<times> RouterData) \<times> 'w remote" where
  "resourceNetworkingRouterV2Update d meta s =
     (case NetworkingV2Client meta (GetRegion meta (rt_region (rt_new d))) of
        Some err \<Rightarrow>
          ((Some (Errorf ''error creating OpenTelekomCloud networking client: %s'' [err]), d), s)
      | None \<Rightarrow>
          (let old = rt_old d; new = rt_new d;
               updateOpts = \<lparr>RUpdate_Name = [], RUpdate_AdminStateUp = None,
                             RUpdate_GatewayInfo = None\<rparr>;
               updateOpts = (if rt_name old \<noteq> rt_name new
                             then updateOpts\<lparr>RUpdate_Name := rt_name new\<rparr> else updateOpts);
               updateOpts = (if Get_bool (rt_admin_state_up old) \<noteq> Get_bool (rt_admin_state_up new)
                             then updateOpts\<lparr>RUpdate_AdminStateUp := Some (Get_bool (rt_admin_state_up new))\<rparr>
                             else updateOpts);
               externalGateway = rt_external_gateway new;
               gatewayInfo = \<lparr>NetworkID = [], EnableSNAT = None\<rparr>;
               gatewayInfo = (if externalGateway \<noteq> []
                              then gatewayInfo\<lparr>NetworkID := externalGateway\<rparr> else gatewayInfo);
               updateGatewaySettings = (rt_external_gateway old \<noteq> rt_external_gateway new);
               enable_snat_changed = (Get_bool (rt_enable_snat old) \<noteq> Get_bool (rt_enable_snat new))
           in if enable_snat_changed \<and> externalGateway = []
              then ((Some (Errorf ''setting enable_snat requires external_gateway to be set'' []), d), s)
              else (let gatewayInfo = (if enable_snat_changed
                                       then gatewayInfo\<lparr>EnableSNAT := Some (Get_bool (rt_enable_snat new))\<rparr>
                                       else gatewayInfo);
                        updateGatewaySettings = (updateGatewaySettings \<or> enable_snat_changed);
                        updateOpts = (if updateGatewaySettings
                                      then updateOpts\<lparr>RUpdate_GatewayInfo := Some gatewayInfo\<rparr>
                                      else updateOpts)
                    in (case invoke (RoutersUpdate (rt_Id d) updateOpts)
                               (routers_Update meta (rt_Id d) updateOpts) s of
                          (Inl err, s1) \<Rightarrow>
                            ((Some (Errorf ''error updating OpenTelekomCloud Neutron Router: %s'' [err]), d), s1)
                        | (Inr r, s1) \<Rightarrow> resourceNetworkingRouterV2Read d meta s1))))"

text \<open>The \<open>stateConf\<close> of \<open>resourceNetworkingRouterV2Delete\<close>.\<close>

definition routerDeleteStateConf ::
  "RouterData \<Rightarrow> 'w Config \<Rightarrow> (Router option, 'w remote) StateChangeConf" where
  "routerDeleteStateConf d meta =
     \<lparr>Pending = [''ACTIVE''], Target = [''DELETED''],
      Refresh = waitForRouterDelete meta (rt_Id d),
      Timeout = rt_timeout_delete d\<rparr>"

definition resourceNetworkingRouterV2Delete ::
  "RouterData \<Rightarrow> 'w Config \<Rightarrow> 'w remote \<Rightarrow> (error option \<times> RouterData) outcome \<times> 'w remote" where
  "resourceNetworkingRouterV2Delete d meta s =
     (case NetworkingV2Client meta (GetRegion meta (rt_region (rt_new d))) of
        Some err \<Rightarrow>
          (Return (Some (Errorf ''error creating OpenTelekomCloud networking client: %s'' [err]), d), s)
      | None \<Rightarrow>
          (let stateConf = routerDeleteStateConf d meta
           in (case WaitForState stateConf s of
                 (Panic, s1) \<Rightarrow> (Panic, s1)
               | (Return (res, Some err), s1) \<Rightarrow>
                   (Return (Some (Errorf ''error deleting OpenTelekomCloud Neutron Router: %s'' [err]), d), s1)
               | (Return (res, None), s1) \<Rightarrow> (Return (None, d\<lparr>rt_Id := []\<rparr>), s1))))"

section \<open>SFS file share\<close>

text \<open>
  The resource data \<open>d\<close> of a file share: the resource ID, one field per attribute of the
  schema, and the create and delete timeouts, counted in refreshes of the wait loop.  A Go
  map is a list of key-value pairs with distinct keys, in the order in which \<open>range\<close>
  visits them; the assignment \<open>m[key] = val\<close> is \<open>AList.update\<close>.
\<close>

record ShareData =
  sfs_Id :: string
  sfs_region :: string
  sfs_share_proto :: string
  sfs_size :: int
  sfs_name :: string
  sfs_status :: string
  sfs_description :: string
  sfs_is_public :: bool
  sfs_metadata :: "(string \<times> string) list"
  sfs_availability_zone :: string
  sfs_access_level :: string
  sfs_access_type :: string
  sfs_access_to :: string
  sfs_share_access_id :: string
  sfs_access_rule_status :: string
  sfs_host :: string
  sfs_export_location :: string
  sfs_volume_type :: string
  sfs_share_type :: string
  sfs_timeout_create :: nat
  sfs_timeout_delete :: nat

fun copy_metadata :: "(string \<times> string) list \<Rightarrow> (string \<times> string) list \<Rightarrow> (string \<times> string) list" where
  "copy_metadata [] meta = meta"
| "copy_metadata ((key, val) # rest) meta = copy_metadata rest (AList.update key val meta)"

definition resourceSFSMetadataV2 :: "ShareData \<Rightarrow> (string \<times> string) list" where
  "resourceSFSMetadataV2 d = copy_metadata (sfs_metadata d) []"

text \<open>
  The loop of \<open>resourceSFSFileSystemV2Read\<close> that drops the system metadata;
  \<open>strings.HasPrefix(key, p)\<close> is \<open>prefix p key\<close> and \<open>strings.Contains(key, p)\<close> is
  \<open>sublist p key\<close>.
\<close>

fun user_metadata :: "(string \<times> string) list \<Rightarrow> (string \<times> string) list \<Rightarrow> (string \<times> string) list" where
  "user_metadata [] metadata = metadata"
| "user_metadata ((key, val) # rest) metadata =
     (if prefix ''#sfs'' key then user_metadata rest metadata
      else if sublist ''enterprise_project_id'' key \<or> sublist ''share_used'' key
      then user_metadata rest metadata
      else user_metadata rest (AList.update key val metadata))"

definition waitForSFSFileStatus ::
  "'w Config \<Rightarrow> string \<Rightarrow> 'w remote \<Rightarrow> (Share option iface \<times> string \<times> error option) outcome \<times> 'w remote" where
  "waitForSFSFileStatus meta shareID s =
     (case invoke (SharesGet shareID) (shares_Get meta shareID) s of
        (res, s1) \<Rightarrow>
          (case Extract res of
             (share, Some err) \<Rightarrow>
               if is_ErrDefault404 err then (Return (IVal share, ''deleted'', None), s1)
               else (Return (INil, [], Some err), s1)
           | (share, None) \<Rightarrow>
               (case share of
                  None \<Rightarrow> (Panic, s1)
                | Some share' \<Rightarrow> (Return (IVal share, Share_Status share', None), s1))))"

text \<open>
  \<open>resourceSFSFileSystemV2Read\<close>.  Every \<open>d.Set\<close> stores a value of the type the schema
  declares, so none of them fails and the collected \<open>mErr\<close> stays empty.
\<close>

definition resourceSFSFileSystemV2Read ::
  "ShareData \<Rightarrow> 'w Config \<Rightarrow> 'w remote \<Rightarrow> (error option \<times> ShareData) \<times> 'w remote" where
  "resourceSFSFileSystemV2Read d meta s =
     (case SfsV2Client meta (GetRegion meta (sfs_region d)) of
        Some err \<Rightarrow>
          ((Some (Errorf ''error creating OpenTelekomCloud File Share: %s'' [err]), d), s)
      | None \<Rightarrow>
          (case invoke (SharesGet (sfs_Id d)) (shares_Get meta (sfs_Id d)) s of
             (Inl err, s1) \<Rightarrow>
               if is_ErrDefault404 err then ((None, d\<lparr>sfs_Id := []\<rparr>), s1)
               else ((Some (Errorf ''error retrieving OpenTelekomCloud Shares: %s'' [err]), d), s1)
           | (Inr share, s1) \<Rightarrow>
               (let d1 = d\<lparr>sfs_name := Share_Name share,
                            sfs_share_proto := Share_ShareProto share,
                            sfs_status := Share_Status share,
                            sfs_size := Share_Size share,
                            sfs_description := Share_Description share,
                            sfs_share_type := Share_ShareType share,
                            sfs_volume_type := Share_VolumeType share,
                            sfs_is_public := Share_IsPublic share,
                            sfs_availability_zone := Share_AvailabilityZone share,
                            sfs_region := GetRegion meta (sfs_region d),
                            sfs_export_location := Share_ExportLocation share,
                            sfs_host := Share_Host share\<rparr>;
                    metadata = user_metadata (Share_Metadata share) [];
                    d2 = d1\<lparr>sfs_metadata := metadata\<rparr>
                in (case invoke (SharesListAccessRights (sfs_Id d2))
                           (shares_ListAccessRights meta (sfs_Id d2)) s1 of
                      (Inl err, s2) \<Rightarrow>
                        if is_ErrDefault404 err then ((None, d2\<lparr>sfs_Id := []\<rparr>), s2)
                        else ((Some (Errorf ''error retrieving OpenTelekomCloud Shares: %s'' [err]), d2), s2)
                    | (Inr rules, s2) \<Rightarrow>
                        (case rules of
                           [] \<Rightarrow> ((None, d2), s2)
                         | rule # others \<Rightarrow>
                             ((None, d2\<lparr>sfs_share_access_id := Right_ID rule,
                                        sfs_access_rule_status := Right_State rule,
                                        sfs_access_to := Right_AccessTo rule,
                                        sfs_access_type := Right_AccessType rule,
                                        sfs_access_level := Right_AccessLevel rule\<rparr>), s2))))))"

text \<open>
  The \<open>createOpts\<close>, the \<open>stateConf\<close> for the created share and the \<open>grantAccessOpts\<close> of
  \<open>resourceSFSFileSystemV2Create\<close>.
\<close>

definition shareCreateOpts :: "ShareData \<Rightarrow> ShareCreateOpts" where
  "shareCreateOpts d =
     \<lparr>SCreate_ShareProto = sfs_share_proto d,
      SCreate_Size = sfs_size d,
      SCreate_Name = sfs_name d,
      SCreate_Description = sfs_description d,
      SCreate_IsPublic = sfs_is_public d,
      SCreate_Metadata = resourceSFSMetadataV2 d,
      SCreate_AvailabilityZone = sfs_availability_zone d\<rparr>"

definition shareCreateStateConf ::
  "ShareData \<Rightarrow> 'w Config \<Rightarrow> Share \<Rightarrow> (Share option, 'w remote) StateChangeConf" where
  "shareCreateStateConf d meta share =
     \<lparr>Pending = [''creating''], Target = [''available''],
      Refresh = waitForSFSFileStatus meta (Share_ID share),
      Timeout = sfs_timeout_create d\<rparr>"

definition shareGrantAccessOpts :: "ShareData \<Rightarrow> GrantAccessOpts" where
  "shareGrantAccessOpts d =
     \<lparr>AccessLevel = sfs_access_level d,
      AccessType = sfs_access_type d,
      AccessTo = sfs_access_to d\<rparr>"

definition resourceSFSFileSystemV2Create ::
  "ShareData \<Rightarrow> 'w Config \<Rightarrow> 'w remote \<Rightarrow> (error option \<times> ShareData) outcome \<times> 'w remote" where
  "resourceSFSFileSystemV2Create d meta s =
     (case SfsV2Client meta (GetRegion meta (sfs_region d)) of
        Some err \<Rightarrow>
          (Return (Some (Errorf ''error creating OpenTelekomCloud File Share Client: %s'' [err]), d), s)
      | None \<Rightarrow>
          (let createOpts = shareCreateOpts d
           in (case invoke (SharesCreate createOpts) (shares_Create meta createOpts) s of
                 (Inl err, s1) \<Rightarrow>
                   (Return (Some (Errorf ''error creating OpenTelekomCloud File Share: %s'' [err]), d), s1)
               | (Inr share, s1) \<Rightarrow>
                   (let stateConf = shareCreateStateConf d meta share
                    in (case WaitForState stateConf s1 of
                          (Panic, s2) \<Rightarrow> (Panic, s2)
                        | (Return (res, Some err), s2) \<Rightarrow>
                            (Return (Some (Errorf ''error applying access rules to share file: %s'' [err]), d), s2)
                        | (Return (res, None), s2) \<Rightarrow>
                            (let grantAccessOpts = shareGrantAccessOpts d
                             in (case invoke (SharesGrantAccess (Share_ID share) grantAccessOpts)
                                        (shares_GrantAccess meta (Share_ID share) grantAccessOpts) s2 of
                                   (Inl err, s3) \<Rightarrow>
                                     (Return (Some (Errorf ''error applying access rules to share file: %s'' [err]), d), s3)
                                 | (Inr access, s3) \<Rightarrow>
                                     (case resourceSFSFileSystemV2Read (d\<lparr>sfs_Id := Share_ID share\<rparr>) meta s3 of
                                        (r, s4) \<Rightarrow> (Return r, s4)))))))))"

text \<open>The \<open>stateConf\<close> of \<open>resourceSFSFileSystemV2Delete\<close>.\<close>

definition shareDeleteStateConf ::
  "ShareData \<Rightarrow> 'w Config \<Rightarrow> (Share option, 'w remote) StateChangeConf" where
  "shareDeleteStateConf d meta =
     \<lparr>Pending = [''available'', ''deleting''], Target = [''deleted''],
      Refresh = waitForSFSFileStatus meta (sfs_Id d),
      Timeout = sfs_timeout_delete d\<rparr>"

definition resourceSFSFileSystemV2Delete ::
  "ShareData \<Rightarrow> 'w Config \<Rightarrow> 'w remote \<Rightarrow> (error option \<times> ShareData) outcome \<times> 'w remote" where
  "resourceSFSFileSystemV2Delete d meta s =
     (case SfsV2Client meta (GetRegion meta (sfs_region d)) of
        Some err \<Rightarrow>
          (Return (Some (Errorf ''error creating OpenTelekomCloud Shared File: %s'' [err]), d), s)
      | None \<Rightarrow>
          (case invoke (SharesDelete (sfs_Id d)) (shares_Delete meta (sfs_Id d)) s of
             (Some err, s1) \<Rightarrow>
               (Return (Some (Errorf ''error deleting OpenTelekomCloud Shared File: %s'' [err]), d), s1)
           | (None, s1) \<Rightarrow>
               (let stateConf = shareDeleteStateConf d meta
                in (case WaitForState stateConf s1 of
                      (Panic, s2) \<Rightarrow> (Panic, s2)
                    | (Return (res, Some err), s2) \<Rightarrow>
                        (Return (Some (Errorf ''error deleting OpenTelekomCloud Share File: %s'' [err]), d), s2)
                    | (Return (res, None), s2) \<Rightarrow> (Return (None, d\<lparr>sfs_Id := []\<rparr>), s2)))))"

text \<open>The calls issued between the remote state \<open>s\<close> and a later state \<open>s'\<close>.\<close>

definition issued :: "'w remote \<Rightarrow> 'w remote \<Rightarrow> call list" where
  "issued s s' = drop (length (calls s)) (calls s')"

section \<open>A small remote cloud for concrete runs\<close>

text \<open>
  The remote state is the list of statuses that the following \<open>Get\<close> calls report, one per
  call; when the list is used up the resource is gone and \<open>Get\<close> answers 404.  All other
  calls succeed and leave the state as it is.
\<close>

definition example_router :: "string \<Rightarrow> Router" where
  "example_router st =
     \<lparr>Router_ID = ''router-1'', Router_Name = ''edge'', Router_Status = st,
      Router_AdminStateUp = True, Router_Distributed = False, Router_TenantID = ''tenant-1'',
      Router_GatewayInfo = \<lparr>NetworkID = [], EnableSNAT = None\<rparr>\<rparr>"

definition example_share :: "string \<Rightarrow> Share" where
  "example_share st =
     \<lparr>Share_ID = ''share-1'', Share_Name = ''data'', Share_ShareProto = ''NFS'',
      Share_Status = st, Share_Size = 10, Share_Description = [], Share_ShareType = ''default'',
      Share_VolumeType = ''default'', Share_IsPublic = False, Share_AvailabilityZone = ''az1'',
      Share_ExportLocation = ''sfs:/share-1'', Share_Host = ''host-1'',
      Share_Metadata = [(''#sfs_quota_type'', ''soft''), (''team'', ''storage''),
                        (''enterprise_project_id'', ''0''), (''x_share_used'', ''1'')]\<rparr>"

definition example_access :: AccessRight where
  "example_access =
     \<lparr>Right_ID = ''access-1'', Right_State = ''active'', Right_AccessTo = ''vpc-1'',
      Right_AccessType = ''cert'', Right_AccessLevel = ''rw''\<rparr>"

definition example_precise :: Precise where
  "example_precise =
     \<lparr>Precise_Id = ''rule-1'', Precise_PolicyID = ''policy-1'', Precise_Name = ''block-admin'',
      Precise_Time = True, Precise_Start = 1700000000, Precise_End = 1700003600,
      Precise_Conditions = [\<lparr>Category = ''url'', Index = [], Logic = 1, Contents = [''/admin'']\<rparr>,
                            \<lparr>Category = ''header'', Index = ''x-role'', Logic = 3, Contents = [''guest'', ''anon'']\<rparr>],
      Precise_Action = \<lparr>Action_Category = ''block''\<rparr>, Precise_Priority = 5\<rparr>"

definition example_cloud :: "string list Config" where
  "example_cloud =
     \<lparr>GetRegion = (\<lambda>r. if r = [] then ''eu-de'' else r),
      NetworkingV2Client = (\<lambda>region. None),
      SfsV2Client = (\<lambda>region. None),
      WafV1Client = (\<lambda>region. None),
      routers_Create = (\<lambda>opts w. (Inr (example_router ''BUILD''), w)),
      routers_Get = (\<lambda>id w. case w of [] \<Rightarrow> (Inl ErrDefault404, [])
                                | st # rest \<Rightarrow> (Inr (example_router st), rest)),
      routers_Update = (\<lambda>id opts w. (Inr (example_router ''ACTIVE''), w)),
      routers_Delete = (\<lambda>id w. (None, w)),
      shares_Create = (\<lambda>opts w. (Inr (example_share ''creating''), w)),
      shares_Get = (\<lambda>id w. case w of [] \<Rightarrow> (Inl ErrDefault404, [])
                               | st # rest \<Rightarrow> (Inr (example_share st), rest)),
      shares_GrantAccess = (\<lambda>id opts w. (Inr example_access, w)),
      shares_ListAccessRights = (\<lambda>id w. (Inr [example_access], w)),
      shares_Delete = (\<lambda>id w. (None, w)),
      precise_Create = (\<lambda>pid opts w. (Inr example_precise, w)),
      precise_Get = (\<lambda>pid id w. case w of [] \<Rightarrow> (Inl ErrDefault404, [])
                                   | st # rest \<Rightarrow> (Inr example_precise, rest))\<rparr>"

text \<open>The same cloud, except that every \<open>Get\<close> fails with an HTTP 500.\<close>

definition failing_cloud :: "string list Config" where
  "failing_cloud =
     example_cloud\<lparr>routers_Get := (\<lambda>id w. (Inl (ErrOther ''HTTP 500''), w)),
                   shares_Get := (\<lambda>id w. (Inl (ErrOther ''HTTP 500''), w)),
                   precise_Get := (\<lambda>pid id w. (Inl (ErrOther ''HTTP 500''), w))\<rparr>"

definition start_remote :: "string list \<Rightarrow> string list remote" where
  "start_remote w = \<lparr>world = w, calls = []\<rparr>"

definition example_router_attrs :: RouterAttrs where
  "example_router_attrs =
     \<lparr>rt_region = [], rt_name = ''edge'', rt_admin_state_up = None, rt_distributed = None,
      rt_external_gateway = [], rt_enable_snat = None, rt_tenant_id = ''tenant-1'',
      rt_value_specs = []\<rparr>"

definition example_router_data :: RouterData where
  "example_router_data =
     \<lparr>rt_Id = [], rt_old = example_router_attrs, rt_new = example_router_attrs,
      rt_timeout_create = 5, rt_timeout_delete = 5\<rparr>"

definition example_share_data :: ShareData where
  "example_share_data =
     \<lparr>sfs_Id = [], sfs_region = [], sfs_share_proto = ''NFS'', sfs_size = 10,
      sfs_name = ''data'', sfs_status = [], sfs_description = [], sfs_is_public = False,
      sfs_metadata = [(''team'', ''storage'')], sfs_availability_zone = ''az1'',
      sfs_access_level = ''rw'', sfs_access_type = ''cert'', sfs_access_to = ''vpc-1'',
      sfs_share_access_id = [], sfs_access_rule_status = [], sfs_host = [],
      sfs_export_location = [], sfs_volume_type = [], sfs_share_type = [],
      sfs_timeout_create = 5, sfs_timeout_delete = 5\<rparr>"

definition example_rule_data :: PreciseData where
  "example_rule_data =
     \<lparr>waf_Id = [], waf_policy_id = ''policy-1'', waf_name = ''block-admin'', waf_time = True,
      waf_start = ''1700000000'', waf_end = ''1700003600'',
      waf_conditions = [\<lparr>category = ''url'', index = [], logic = 1, contents = [''/admin'']\<rparr>,
                        \<lparr>category = ''header'', index = ''x-role'', logic = 3,
                         contents = [''guest'', ''anon'']\<rparr>],
      waf_action_category = ''block'', waf_priority = 5\<rparr>"

text \<open>
  Router configurations without an external gateway: \<open>enable_snat\<close> set to false,
  \<open>enable_snat\<close> set to true on a new router, and \<open>enable_snat\<close> left at true on a router
  whose gateway is being removed.
\<close>

definition snat_false_data :: RouterData where
  "snat_false_data =
     example_router_data\<lparr>rt_new := example_router_attrs\<lparr>rt_enable_snat := Some False\<rparr>\<rparr>"

definition snat_true_data :: RouterData where
  "snat_true_data =
     example_router_data\<lparr>rt_new := example_router_attrs\<lparr>rt_enable_snat := Some True\<rparr>\<rparr>"

definition snat_kept_data :: RouterData where
  "snat_kept_data =
     example_router_data
       \<lparr>rt_Id := ''router-1'',
        rt_old := example_router_attrs\<lparr>rt_external_gateway := ''net-1'', rt_enable_snat := Some True\<rparr>,
        rt_new := example_router_attrs\<lparr>rt_enable_snat := Some True\<rparr>\<rparr>"

section \<open>Properties of the helpers\<close>

lemma invoke_eq:
  "f (world s) = (r, w1) \<Longrightarrow> invoke c f s = (r, \<lparr>world = w1, calls = calls s @ [c]\<rparr>)"
  by (simp add: invoke_def)

lemma invoke_calls: "calls (snd (invoke c f s)) = calls s @ [c]"
  by (simp add: invoke_def split: prod.splits)

lemma invoke_result: "fst (invoke c f s) = fst (f (world s))"
  by (simp add: invoke_def split: prod.splits)

lemma invoke_D:
  "invoke c f s = (r, s1) \<Longrightarrow> calls s1 = calls s @ [c] \<and> f (world s) = (r, world s1)"
  by (auto simp: invoke_def split: prod.splits)

lemma range_store_eq:
  "length ys = i + length xs \<Longrightarrow> range_store f xs i ys = take i ys @ map f xs"
proof (induction xs arbitrary: i ys)
  case Nil
  then show ?case by simp
next
  case (Cons v xs)
  have "range_store f (v # xs) i ys = range_store f xs (Suc i) (ys[i := f v])" by simp
  also have "\<dots> = take (Suc i) (ys[i := f v]) @ map f xs"
    using Cons.prems by (intro Cons.IH) simp
  also have "take (Suc i) (ys[i := f v]) = take i ys @ [f v]"
    using Cons.prems by (simp add: take_Suc_conv_app_nth)
  finally show ?case by simp
qed

lemma range_store_map: "range_store f xs 0 (replicate (length xs) z) = map f xs"
  by (simp add: range_store_eq)

lemma range_append_eq: "range_append f xs acc = acc @ map f xs"
  by (induction xs arbitrary: acc) simp_all

subsection \<open>Decimal rendering and parsing are inverse\<close>

lemma parse_digits_append:
  "parse_digits acc (xs @ ys) =
     (case parse_digits acc xs of None \<Rightarrow> None | Some a \<Rightarrow> parse_digits a ys)"
  by (induction xs arbitrary: acc) (auto split: option.splits)

lemma digit_val_digit_char: "n < 10 \<Longrightarrow> digit_val (digit_char n) = Some n"
proof -
  assume "n < 10"
  then have "n \<in> {0, 1, 2, 3, 4, 5, 6, 7, 8, 9}" by auto
  then show ?thesis by (auto simp: digit_val_def digit_char_def Let_def)
qed

lemma format_digits_small: "n < 10 \<Longrightarrow> format_digits n = [digit_char n]"
  by (subst format_digits.simps) simp

lemma format_digits_big:
  "\<not> n < 10 \<Longrightarrow> format_digits n = format_digits (n div 10) @ [digit_char (n mod 10)]"
  by (subst format_digits.simps) simp

lemma format_digits_nonempty: "format_digits n \<noteq> []"
  by (cases "n < 10") (simp_all add: format_digits_small format_digits_big)

lemma parse_format_digits:
  "parse_digits acc (format_digits n) = Some (acc * 10 ^ length (format_digits n) + n)"
proof (induction n arbitrary: acc rule: format_digits.induct)
  case (1 n)
  show ?case
  proof (cases "n < 10")
    case True
    then show ?thesis by (simp add: format_digits_small digit_val_digit_char)
  next
    case False
    show ?thesis
      using False "1.IH"[OF False, of acc]
      by (simp add: format_digits_big parse_digits_append digit_val_digit_char algebra_simps)
  qed
qed

lemma digit_char_no_sign:
  assumes "n < 10"
  shows "digit_char n \<noteq> CHR ''-'' \<and> digit_char n \<noteq> CHR ''+''"
proof -
  have "digit_val (digit_char n) = Some n" using assms by (rule digit_val_digit_char)
  moreover have "digit_val (CHR ''-'') = None" "digit_val (CHR ''+'') = None"
    by (simp_all add: digit_val_def)
  ultimately show ?thesis by auto
qed

lemma format_digits_no_sign:
  "hd (format_digits n) \<noteq> CHR ''-'' \<and> hd (format_digits n) \<noteq> CHR ''+''"
proof (induction n rule: format_digits.induct)
  case (1 n)
  show ?case
  proof (cases "n < 10")
    case True
    then show ?thesis using digit_char_no_sign[of n] by (simp add: format_digits_small)
  next
    case False
    show ?thesis using "1.IH"[OF False] format_digits_nonempty[of "n div 10"]
      by (simp add: format_digits_big[OF False])
  qed
qed

lemma ParseInt_unsigned:
  assumes "ds \<noteq> []" "hd ds \<noteq> CHR ''-''" "hd ds \<noteq> CHR ''+''"
    "parse_digits 0 ds = Some un" "un < 2 ^ 63"
  shows "ParseInt ds = Inr (int un)"
proof -
  obtain c cs where ds: "ds = c # cs" using assms(1) by (cases ds) auto
  have c: "c \<noteq> CHR ''-''" "c \<noteq> CHR ''+''" using assms(2,3) ds by simp_all
  have p: "parse_digits 0 (c # cs) = Some un" using assms(4) ds by simp
  show ?thesis
    unfolding ParseInt_def ds using c p assms(5)
    by (simp add: Let_def del: parse_digits.simps)
qed

lemma ParseInt_negative:
  assumes "ds \<noteq> []" "parse_digits 0 ds = Some un" "un \<le> 2 ^ 63"
  shows "ParseInt (CHR ''-'' # ds) = Inr (- int un)"
  unfolding ParseInt_def using assms by (simp add: Let_def)

lemma ParseInt_FormatInt:
  assumes "- (2 ^ 63) \<le> i" "i < 2 ^ 63"
  shows "ParseInt (FormatInt i) = Inr i"
proof (cases "i < 0")
  case True
  have le: "nat (- i) \<le> 2 ^ 63" using assms True by simp
  have "ParseInt (CHR ''-'' # format_digits (nat (- i))) = Inr (- int (nat (- i)))"
    by (rule ParseInt_negative[OF format_digits_nonempty _ le]) (simp add: parse_format_digits)
  then show ?thesis using True by (simp add: FormatInt_def)
next
  case False
  have lt: "nat i < 2 ^ 63" using assms False by simp
  have "ParseInt (format_digits (nat i)) = Inr (int (nat i))"
    using format_digits_no_sign[of "nat i"]
    by (intro ParseInt_unsigned[OF format_digits_nonempty _ _ _ lt])
       (simp_all add: parse_format_digits)
  then show ?thesis using False by (simp add: FormatInt_def)
qed

section \<open>WAF precise protection rule: properties\<close>

lemma getConditions_map: "getConditions d = map condition_of_block (waf_conditions d)"
  by (simp add: getConditions_def range_append_eq)

lemma condition_of_block_fields:
  "Category (condition_of_block b) = category b"
  "Index (condition_of_block b) = index b"
  "Logic (condition_of_block b) = logic b"
  "Contents (condition_of_block b) = contents b"
  by (simp_all add: condition_of_block_def Let_def range_store_map)

lemma waf_Read_calls:
  "calls (snd (resourceWafPreciseProtectionRuleV1Read d meta s)) =
     calls s @ (case WafV1Client meta (GetRegion meta []) of
                  Some err \<Rightarrow> []
                | None \<Rightarrow> [PreciseGet (waf_policy_id d) (waf_Id d)])"
  by (auto simp: resourceWafPreciseProtectionRuleV1Read_def Let_def
           dest!: invoke_D split: option.splits prod.splits sum.splits)

lemma waf_GetOk_cache_control: "waf_GetOk d ''cache_control'' = (INil, False)"
  by (simp add: waf_GetOk_def waf_Get_def)

lemma waf_Create_issued:
  assumes "PreciseCreate pid opts \<in> set (issued s (snd (resourceWafPreciseProtectionRuleV1Create d meta s)))"
  shows "pid = waf_policy_id d \<and> PCreate_Conditions opts = getConditions d \<and> PCreate_End opts = 0"
  using assms
  by (auto simp: resourceWafPreciseProtectionRuleV1Create_def issued_def Let_def waf_Read_calls
                 waf_GetOk_cache_control
           dest!: invoke_D split: option.splits prod.splits sum.splits if_splits)

text \<open>
  C4.  The conditions of the create request are a one-to-one image of the configured
  condition blocks: as many, in the same order, and the i-th carries the category, index,
  logic and contents of the i-th block; every create call that
  \<open>resourceWafPreciseProtectionRuleV1Create\<close> issues carries exactly these conditions.
\<close>

theorem waf_conditions_one_to_one:
  "length (getConditions d) = length (waf_conditions d) \<and>
   (\<forall>i < length (waf_conditions d).
      Category (getConditions d ! i) = category (waf_conditions d ! i) \<and>
      Index (getConditions d ! i) = index (waf_conditions d ! i) \<and>
      Logic (getConditions d ! i) = logic (waf_conditions d ! i) \<and>
      Contents (getConditions d ! i) = contents (waf_conditions d ! i)) \<and>
   (\<forall>pid opts.
      PreciseCreate pid opts \<in> set (issued s (snd (resourceWafPreciseProtectionRuleV1Create d meta s)))
      \<longrightarrow> PCreate_Conditions opts = getConditions d)"
proof (intro conjI allI impI)
  show "length (getConditions d) = length (waf_conditions d)"
    by (simp add: getConditions_map)
next
  fix i assume "i < length (waf_conditions d)"
  then have nth: "getConditions d ! i = condition_of_block (waf_conditions d ! i)"
    by (simp add: getConditions_map)
  show "Category (getConditions d ! i) = category (waf_conditions d ! i)"
    and "Index (getConditions d ! i) = index (waf_conditions d ! i)"
    and "Logic (getConditions d ! i) = logic (waf_conditions d ! i)"
    and "Contents (getConditions d ! i) = contents (waf_conditions d ! i)"
    by (simp_all add: nth condition_of_block_fields)
next
  fix pid opts
  assume "PreciseCreate pid opts \<in> set (issued s (snd (resourceWafPreciseProtectionRuleV1Create d meta s)))"
  then show "PCreate_Conditions opts = getConditions d"
    using waf_Create_issued by blast
qed

lemma example_rule_create:
  "resourceWafPreciseProtectionRuleV1Create example_rule_data example_cloud (start_remote [''ok'']) =
     ((None, example_rule_data\<lparr>waf_Id := ''rule-1''\<rparr>),
      \<lparr>world = [],
       calls = [PreciseCreate ''policy-1''
                  \<lparr>PCreate_Name = ''block-admin'', PCreate_Time = True,
                   PCreate_Start = 1700000000, PCreate_End = 0,
                   PCreate_Conditions = Precise_Conditions example_precise,
                   PCreate_Action = \<lparr>Action_Category = ''block''\<rparr>,
                   PCreate_Priority = Some 5\<rparr>,
                PreciseGet ''policy-1'' ''rule-1'']\<rparr>)"
  by (simp add: resourceWafPreciseProtectionRuleV1Create_def resourceWafPreciseProtectionRuleV1Read_def
      example_rule_data_def example_cloud_def example_precise_def start_remote_def invoke_def
      waf_GetOk_def waf_Get_def ParseInt_def digit_val_def Let_def getConditions_def
      condition_of_block_def getPreciseAction_def is_ErrDefault404_def FormatInt_def
      format_digits.simps digit_char_def block_of_condition_def nil_block_def)

theorem waf_conditions_one_to_one_witness:
  "(1::nat) < length (waf_conditions example_rule_data) \<and>
   Category (getConditions example_rule_data ! 1) = ''header'' \<and>
   Contents (getConditions example_rule_data ! 1) = [''guest'', ''anon''] \<and>
   PreciseCreate ''policy-1''
      \<lparr>PCreate_Name = ''block-admin'', PCreate_Time = True,
       PCreate_Start = 1700000000, PCreate_End = 0,
       PCreate_Conditions = getConditions example_rule_data,
       PCreate_Action = \<lparr>Action_Category = ''block''\<rparr>,
       PCreate_Priority = Some 5\<rparr>
     \<in> set (issued (start_remote [''ok''])
          (snd (resourceWafPreciseProtectionRuleV1Create example_rule_data example_cloud (start_remote [''ok'']))))"
proof -
  have len: "(1::nat) < length (waf_conditions example_rule_data)"
    by (simp add: example_rule_data_def)
  have mem: "PreciseCreate ''policy-1''
      \<lparr>PCreate_Name = ''block-admin'', PCreate_Time = True,
       PCreate_Start = 1700000000, PCreate_End = 0,
       PCreate_Conditions = Precise_Conditions example_precise,
       PCreate_Action = \<lparr>Action_Category = ''block''\<rparr>,
       PCreate_Priority = Some 5\<rparr>
     \<in> set (issued (start_remote [''ok''])
          (snd (resourceWafPreciseProtectionRuleV1Create example_rule_data example_cloud (start_remote [''ok'']))))"
    unfolding example_rule_create by (simp add: issued_def start_remote_def)
  note inst = waf_conditions_one_to_one[of example_rule_data "start_remote [''ok'']" example_cloud]
  from inst mem have c: "Precise_Conditions example_precise = getConditions example_rule_data"
    by fastforce
  from inst len have
    "Category (getConditions example_rule_data ! 1) = category (waf_conditions example_rule_data ! 1)"
    "Contents (getConditions example_rule_data ! 1) = contents (waf_conditions example_rule_data ! 1)"
    by blast+
  then show ?thesis using len mem c by (simp add: example_rule_data_def)
qed

text \<open>
  C2.  \<open>resourceWafPreciseProtectionRuleV1Create\<close> parses \<open>end\<close> only when
  \<open>d.GetOk("cache_control")\<close> reports a value, and the schema declares no attribute of that
  name.  With \<open>start = "1700000000"\<close> and \<open>end = "1700003600"\<close> the create request carries
  \<open>Start = 1700000000\<close> but \<open>End = 0\<close>; with \<open>end = "soon"\<close>, which is no decimal number,
  Create reports no conversion error and sends the same request.
\<close>

theorem waf_create_ignores_end:
  "snd (waf_GetOk example_rule_data ''end'') \<and>
   ParseInt (waf_end example_rule_data) = Inr 1700003600 \<and>
   resourceWafPreciseProtectionRuleV1Create example_rule_data example_cloud (start_remote [''ok'']) =
     ((None, example_rule_data\<lparr>waf_Id := ''rule-1''\<rparr>),
      \<lparr>world = [],
       calls = [PreciseCreate ''policy-1''
                  \<lparr>PCreate_Name = ''block-admin'', PCreate_Time = True,
                   PCreate_Start = 1700000000, PCreate_End = 0,
                   PCreate_Conditions = Precise_Conditions example_precise,
                   PCreate_Action = \<lparr>Action_Category = ''block''\<rparr>,
                   PCreate_Priority = Some 5\<rparr>,
                PreciseGet ''policy-1'' ''rule-1'']\<rparr>) \<and>
   ParseInt ''soon'' = Inl ErrSyntax \<and>
   fst (fst (resourceWafPreciseProtectionRuleV1Create (example_rule_data\<lparr>waf_end := ''soon''\<rparr>)
               example_cloud (start_remote [''ok'']))) = None \<and>
   issued (start_remote [''ok''])
     (snd (resourceWafPreciseProtectionRuleV1Create (example_rule_data\<lparr>waf_end := ''soon''\<rparr>)
             example_cloud (start_remote [''ok''])))
     = [PreciseCreate ''policy-1''
          \<lparr>PCreate_Name = ''block-admin'', PCreate_Time = True,
           PCreate_Start = 1700000000, PCreate_End = 0,
           PCreate_Conditions = Precise_Conditions example_precise,
           PCreate_Action = \<lparr>Action_Category = ''block''\<rparr>,
           PCreate_Priority = Some 5\<rparr>,
        PreciseGet ''policy-1'' ''rule-1'']"
proof -
  have "snd (waf_GetOk example_rule_data ''end'')"
    by (simp add: waf_GetOk_def waf_Get_def example_rule_data_def)
  moreover have "ParseInt (waf_end example_rule_data) = Inr 1700003600"
    by (simp add: example_rule_data_def ParseInt_def digit_val_def Let_def)
  moreover have "ParseInt ''soon'' = Inl ErrSyntax"
    by (simp add: ParseInt_def digit_val_def Let_def)
  moreover have
    "resourceWafPreciseProtectionRuleV1Create (example_rule_data\<lparr>waf_end := ''soon''\<rparr>)
       example_cloud (start_remote [''ok'']) =
     ((None, example_rule_data\<lparr>waf_Id := ''rule-1''\<rparr>),
      \<lparr>world = [],
       calls = [PreciseCreate ''policy-1''
                  \<lparr>PCreate_Name = ''block-admin'', PCreate_Time = True,
                   PCreate_Start = 1700000000, PCreate_End = 0,
                   PCreate_Conditions = Precise_Conditions example_precise,
                   PCreate_Action = \<lparr>Action_Category = ''block''\<rparr>,
                   PCreate_Priority = Some 5\<rparr>,
                PreciseGet ''policy-1'' ''rule-1'']\<rparr>)"
    by (simp add: resourceWafPreciseProtectionRuleV1Create_def resourceWafPreciseProtectionRuleV1Read_def
        example_rule_data_def example_cloud_def example_precise_def start_remote_def invoke_def
        waf_GetOk_def waf_Get_def ParseInt_def digit_val_def Let_def getConditions_def
        condition_of_block_def getPreciseAction_def is_ErrDefault404_def FormatInt_def
        format_digits.simps digit_char_def block_of_condition_def nil_block_def)
  ultimately show ?thesis
    by (simp add: example_rule_create issued_def) (simp add: start_remote_def)
qed

text \<open>
  C5.  When \<open>resourceWafPreciseProtectionRuleV1Read\<close> has a client and the API returns the
  rule \<open>n\<close>, Read reports no error and the state holds the fields of \<open>n\<close>: the ID, policy_id,
  name, time, action_category and priority; one condition block per condition of \<open>n\<close>, in
  the same order and with its category, index, logic and contents; and start and end as
  the decimal renderings of \<open>n\<close>'s 64-bit \<open>Start\<close> and \<open>End\<close>, which parse back to these
  numbers.
\<close>

theorem waf_read_sets_state:
  assumes "WafV1Client meta (GetRegion meta []) = None"
    and "precise_Get meta (waf_policy_id d) (waf_Id d) (world s) = (Inr n, w1)"
  shows "fst (resourceWafPreciseProtectionRuleV1Read d meta s) =
           (None, \<lparr>waf_Id = Precise_Id n, waf_policy_id = Precise_PolicyID n,
                   waf_name = Precise_Name n, waf_time = Precise_Time n,
                   waf_start = FormatInt (Precise_Start n), waf_end = FormatInt (Precise_End n),
                   waf_conditions = map block_of_condition (Precise_Conditions n),
                   waf_action_category = Action_Category (Precise_Action n),
                   waf_priority = Precise_Priority n\<rparr>) \<and>
         (\<forall>i < length (Precise_Conditions n).
            category (map block_of_condition (Precise_Conditions n) ! i) = Category (Precise_Conditions n ! i) \<and>
            index (map block_of_condition (Precise_Conditions n) ! i) = Index (Precise_Conditions n ! i) \<and>
            logic (map block_of_condition (Precise_Conditions n) ! i) = Logic (Precise_Conditions n ! i) \<and>
            contents (map block_of_condition (Precise_Conditions n) ! i) = Contents (Precise_Conditions n ! i)) \<and>
         (- (2 ^ 63) \<le> Precise_Start n \<and> Precise_Start n < 2 ^ 63 \<longrightarrow>
            ParseInt (FormatInt (Precise_Start n)) = Inr (Precise_Start n)) \<and>
         (- (2 ^ 63) \<le> Precise_End n \<and> Precise_End n < 2 ^ 63 \<longrightarrow>
            ParseInt (FormatInt (Precise_End n)) = Inr (Precise_End n))"
proof (intro conjI allI impI)
  show "fst (resourceWafPreciseProtectionRuleV1Read d meta s) =
           (None, \<lparr>waf_Id = Precise_Id n, waf_policy_id = Precise_PolicyID n,
                   waf_name = Precise_Name n, waf_time = Precise_Time n,
                   waf_start = FormatInt (Precise_Start n), waf_end = FormatInt (Precise_End n),
                   waf_conditions = map block_of_condition (Precise_Conditions n),
                   waf_action_category = Action_Category (Precise_Action n),
                   waf_priority = Precise_Priority n\<rparr>)"
    using assms
    by (simp add: resourceWafPreciseProtectionRuleV1Read_def invoke_def Let_def range_store_map)
next
  fix i assume "i < length (Precise_Conditions n)"
  then show "category (map block_of_condition (Precise_Conditions n) ! i) = Category (Precise_Conditions n ! i)"
    and "index (map block_of_condition (Precise_Conditions n) ! i) = Index (Precise_Conditions n ! i)"
    and "logic (map block_of_condition (Precise_Conditions n) ! i) = Logic (Precise_Conditions n ! i)"
    and "contents (map block_of_condition (Precise_Conditions n) ! i) = Contents (Precise_Conditions n ! i)"
    by (simp_all add: block_of_condition_def)
next
  assume "- (2 ^ 63) \<le> Precise_Start n \<and> Precise_Start n < 2 ^ 63"
  then show "ParseInt (FormatInt (Precise_Start n)) = Inr (Precise_Start n)"
    by (simp add: ParseInt_FormatInt)
next
  assume "- (2 ^ 63) \<le> Precise_End n \<and> Precise_End n < 2 ^ 63"
  then show "ParseInt (FormatInt (Precise_End n)) = Inr (Precise_End n)"
    by (simp add: ParseInt_FormatInt)
qed

theorem waf_read_sets_state_witness:
  "WafV1Client example_cloud (GetRegion example_cloud []) = None \<and>
   precise_Get example_cloud ''policy-1'' ''rule-1'' [''ok''] = (Inr example_precise, []) \<and>
   fst (resourceWafPreciseProtectionRuleV1Read (example_rule_data\<lparr>waf_Id := ''rule-1'', waf_start := [], waf_end := []\<rparr>)
          example_cloud (start_remote [''ok''])) =
     (None, example_rule_data\<lparr>waf_Id := ''rule-1'', waf_start := ''1700000000'', waf_end := ''1700003600''\<rparr>) \<and>
   contents (map block_of_condition (Precise_Conditions example_precise) ! 1) = [''guest'', ''anon''] \<and>
   ParseInt (FormatInt (Precise_End example_precise)) = Inr 1700003600"
proof -
  have c: "WafV1Client example_cloud (GetRegion example_cloud []) = None"
    by (simp add: example_cloud_def)
  have g: "precise_Get example_cloud
             (waf_policy_id (example_rule_data\<lparr>waf_Id := ''rule-1'', waf_start := [], waf_end := []\<rparr>))
             (waf_Id (example_rule_data\<lparr>waf_Id := ''rule-1'', waf_start := [], waf_end := []\<rparr>))
             (world (start_remote [''ok''])) = (Inr example_precise, [])"
    by (simp add: example_cloud_def example_rule_data_def start_remote_def)
  have r: "(- (2 ^ 63) \<le> Precise_End example_precise \<and> Precise_End example_precise < 2 ^ 63)"
    "(1::nat) < length (Precise_Conditions example_precise)"
    by (simp_all add: example_precise_def)
  note inst = waf_read_sets_state[OF c g]
  from inst r have "ParseInt (FormatInt (Precise_End example_precise)) = Inr (Precise_End example_precise)"
    "contents (map block_of_condition (Precise_Conditions example_precise) ! 1)
       = Contents (Precise_Conditions example_precise ! 1)"
    by blast+
  moreover from inst have
    "fst (resourceWafPreciseProtectionRuleV1Read (example_rule_data\<lparr>waf_Id := ''rule-1'', waf_start := [], waf_end := []\<rparr>)
          example_cloud (start_remote [''ok''])) =
       (None, \<lparr>waf_Id = Precise_Id example_precise, waf_policy_id = Precise_PolicyID example_precise,
               waf_name = Precise_Name example_precise, waf_time = Precise_Time example_precise,
               waf_start = FormatInt (Precise_Start example_precise),
               waf_end = FormatInt (Precise_End example_precise),
               waf_conditions = map block_of_condition (Precise_Conditions example_precise),
               waf_action_category = Action_Category (Precise_Action example_precise),
               waf_priority = Precise_Priority example_precise\<rparr>)"
    by blast
  ultimately show ?thesis using c g
    by (simp add: example_precise_def example_rule_data_def start_remote_def FormatInt_def
        format_digits.simps digit_char_def block_of_condition_def)
qed

section \<open>The wait loop: properties\<close>

lemma refresh_loop_no_panic:
  assumes "\<And>s. fst (Refresh conf s) \<noteq> Panic"
  shows "fst (refresh_loop conf n k s) \<noteq> Panic"
proof (induction n arbitrary: k s)
  case 0
  show ?case by simp
next
  case (Suc n)
  obtain r s1 where r: "Refresh conf s = (r, s1)" by (cases "Refresh conf s")
  with assms[of s] obtain res st err where ret: "r = Return (res, st, err)"
    by (cases r) auto
  show ?case
    using Suc.IH by (cases err) (simp_all add: r ret)
qed

lemma refresh_loop_success:
  assumes "refresh_loop conf n k s = (Return (res, None), s1)" and "Target conf \<noteq> []"
  shows "\<exists>s0 st. Refresh conf s0 = (Return (res, st, None), s1) \<and> st \<in> set (Target conf)"
  using assms(1)
proof (induction n arbitrary: k s)
  case 0
  then show ?case by simp
next
  case (Suc n)
  obtain r s2 where r: "Refresh conf s = (r, s2)" by (cases "Refresh conf s")
  show ?case
  proof (cases r)
    case Panic
    with Suc.prems r show ?thesis by simp
  next
    case (Return t)
    obtain res' st err where t: "t = (res', st, err)" by (cases t)
    show ?thesis
    proof (cases err)
      case (Some e)
      with Suc.prems r Return t show ?thesis by simp
    next
      case None
      show ?thesis
        using Suc.prems Suc.IH r Return t None assms(2)
        by (auto split: if_splits)
    qed
  qed
qed

lemma refresh_loop_calls:
  fixes conf :: "('r, 'w remote) StateChangeConf"
  assumes "\<And>s. \<exists>cs. calls (snd (Refresh conf s)) = calls s @ cs \<and> set cs \<subseteq> A"
  shows "\<exists>cs. calls (snd (refresh_loop conf n k s)) = calls s @ cs \<and> set cs \<subseteq> A"
proof (induction n arbitrary: k s)
  case 0
  show ?case by simp
next
  case (Suc n)
  obtain r s1 where r: "Refresh conf s = (r, s1)" by (cases "Refresh conf s")
  from assms[of s] r obtain cs where cs: "calls s1 = calls s @ cs" "set cs \<subseteq> A" by auto
  have here: "\<exists>cs. calls s1 = calls s @ cs \<and> set cs \<subseteq> A" using cs by blast
  have later: "\<exists>cs. calls (snd (refresh_loop conf n k' s1)) = calls s @ cs \<and> set cs \<subseteq> A" for k'
  proof -
    from Suc.IH[of k' s1] obtain cs' where
      "calls (snd (refresh_loop conf n k' s1)) = calls s1 @ cs'" "set cs' \<subseteq> A" by blast
    with cs have "calls (snd (refresh_loop conf n k' s1)) = calls s @ (cs @ cs')" "set (cs @ cs') \<subseteq> A"
      by simp_all
    then show ?thesis by blast
  qed
  show ?case
  proof (cases r)
    case Panic
    with r here show ?thesis by simp
  next
    case (Return t)
    obtain res st err where t: "t = (res, st, err)" by (cases t)
    show ?thesis
      using here later by (cases err) (simp_all add: r Return t)
  qed
qed

lemma refresh_loop_first_target:
  assumes "Refresh conf s = (Return (IVal v, st, None), s1)" and "st \<in> set (Target conf)"
  shows "refresh_loop conf (Suc n) k s = (Return (IVal v, None), s1)"
  using assms by simp

section \<open>Networking router: properties\<close>

lemma waitForRouterActive_Get_error:
  assumes "routers_Get meta routerId (world s) = (Inl err, w1)"
  shows "waitForRouterActive meta routerId s =
           (Panic, \<lparr>world = w1, calls = calls s @ [RoutersGet routerId]\<rparr>)"
  using assms by (simp add: waitForRouterActive_def invoke_def Extract_def)

lemma waitForRouterActive_Get_ok:
  assumes "routers_Get meta routerId (world s) = (Inr r, w1)"
  shows "waitForRouterActive meta routerId s =
           (Return (IVal (Some r), Router_Status r, None),
            \<lparr>world = w1, calls = calls s @ [RoutersGet routerId]\<rparr>)"
  using assms by (simp add: waitForRouterActive_def invoke_def Extract_def)

lemma example_routers_Get:
  "routers_Get example_cloud rid (st # rest) = (Inr (example_router st), rest)"
  "routers_Get example_cloud rid [] = (Inl ErrDefault404, [])"
  "NetworkingV2Client example_cloud region = None"
  "routers_Create example_cloud opts w = (Inr (example_router ''BUILD''), w)"
  "routers_Update example_cloud rid uopts w = (Inr (example_router ''ACTIVE''), w)"
  "routers_Delete example_cloud rid w = (None, w)"
  by (simp_all add: example_cloud_def)

lemma failing_routers_Get:
  "routers_Get failing_cloud rid w = (Inl (ErrOther ''HTTP 500''), w)"
  "NetworkingV2Client failing_cloud region = None"
  "routers_Create failing_cloud opts w = (Inr (example_router ''BUILD''), w)"
  by (simp_all add: failing_cloud_def example_cloud_def)

text \<open>
  C1.  \<open>resourceNetworkingRouterV2Create\<close> assigns the error of the wait to \<open>err\<close> and never
  looks at it.  Where the new router goes from BUILD to ERROR the wait ends with an
  \<open>UnexpectedStateError\<close>, and where it stays in BUILD the wait ends with a
  \<open>TimeoutError\<close>; in both runs Create reports no error and records the router under its
  ID.
\<close>

theorem router_create_ignores_wait_error:
  "fst (WaitForState
          \<lparr>Pending = [''BUILD'', ''PENDING_CREATE'', ''PENDING_UPDATE''], Target = [''ACTIVE''],
           Refresh = waitForRouterActive example_cloud ''router-1'',
           Timeout = rt_timeout_create example_router_data\<rparr>
          (start_remote [''BUILD'', ''ERROR'', ''ERROR'']))
     = Return (IVal (Some (example_router ''ERROR'')), Some (UnexpectedStateError ''ERROR'')) \<and>
   fst (resourceNetworkingRouterV2Create example_router_data example_cloud
          (start_remote [''BUILD'', ''ERROR'', ''ERROR'']))
     = Return (None, example_router_data
                 \<lparr>rt_Id := ''router-1'',
                  rt_new := example_router_attrs
                    \<lparr>rt_admin_state_up := Some True, rt_distributed := Some False,
                     rt_region := ''eu-de''\<rparr>\<rparr>) \<and>
   fst (WaitForState
          \<lparr>Pending = [''BUILD'', ''PENDING_CREATE'', ''PENDING_UPDATE''], Target = [''ACTIVE''],
           Refresh = waitForRouterActive example_cloud ''router-1'',
           Timeout = rt_timeout_create example_router_data\<rparr>
          (start_remote [''BUILD'', ''BUILD'', ''BUILD'', ''BUILD'', ''BUILD'', ''BUILD'']))
     = Return (INil, Some TimeoutError) \<and>
   fst (resourceNetworkingRouterV2Create example_router_data example_cloud
          (start_remote [''BUILD'', ''BUILD'', ''BUILD'', ''BUILD'', ''BUILD'', ''BUILD'']))
     = Return (None, example_router_data
                 \<lparr>rt_Id := ''router-1'',
                  rt_new := example_router_attrs
                    \<lparr>rt_admin_state_up := Some True, rt_distributed := Some False,
                     rt_region := ''eu-de''\<rparr>\<rparr>)"
  by (simp add: resourceNetworkingRouterV2Create_def routerCreateOpts_def GetOk_bool_def
      Get_bool_def resourceNetworkingRouterV2Read_def routerCreateStateConf_def WaitForState_def example_routers_Get
      waitForRouterActive_def Extract_def invoke_def start_remote_def Let_def
      example_router_def example_router_data_def example_router_attrs_def
      is_ErrDefault404_def eval_nat_numeral example_cloud_def)

text \<open>
  C6.  When the \<open>Get\<close> call fails, the refresh function of \<open>waitForRouterActive\<close> evaluates
  \<open>r.Status\<close> on the nil router that \<open>Extract\<close> returned with the error: the call panics
  and yields no triple, and so does the Create that waits with it.
\<close>

theorem waitForRouterActive_panics_on_Get_error:
  "routers_Get failing_cloud ''router-1'' (world (start_remote [''BUILD''])) =
     (Inl (ErrOther ''HTTP 500''), [''BUILD'']) \<and>
   Extract (Inl (ErrOther ''HTTP 500'') :: error + Router) = (None, Some (ErrOther ''HTTP 500'')) \<and>
   waitForRouterActive failing_cloud ''router-1'' (start_remote [''BUILD'']) =
     (Panic, \<lparr>world = [''BUILD''], calls = [RoutersGet ''router-1'']\<rparr>) \<and>
   fst (resourceNetworkingRouterV2Create example_router_data failing_cloud (start_remote [''BUILD'']))
     = Panic"
  by (simp add: resourceNetworkingRouterV2Create_def routerCreateOpts_def GetOk_bool_def
      Get_bool_def routerCreateStateConf_def WaitForState_def failing_routers_Get waitForRouterActive_def Extract_def
      invoke_def start_remote_def Let_def example_router_def example_router_data_def
      example_router_attrs_def eval_nat_numeral)

text \<open>
  C8 as stated fails.  A Create whose configuration sets \<open>enable_snat = false\<close> without an
  external gateway passes the guard, because \<open>d.GetOk\<close> reports a false boolean as not
  set: it issues the create call and returns no error.  An Update whose configuration
  keeps \<open>enable_snat = true\<close> while the external gateway is removed passes the guard,
  because \<open>d.HasChange("enable_snat")\<close> is false: it issues the update call and returns no
  error.
\<close>

theorem router_enable_snat_guard_counterexample:
  "rt_enable_snat (rt_new snat_false_data) = Some False \<and>
   rt_external_gateway (rt_new snat_false_data) = [] \<and>
   resourceNetworkingRouterV2Create snat_false_data example_cloud (start_remote [''ACTIVE'', ''ACTIVE''])
     = (Return (None, snat_false_data
                  \<lparr>rt_Id := ''router-1'',
                   rt_new := example_router_attrs
                     \<lparr>rt_admin_state_up := Some True, rt_distributed := Some False,
                      rt_region := ''eu-de''\<rparr>\<rparr>),
        \<lparr>world = [],
         calls = [RoutersCreate \<lparr>RCreate_Name = ''edge'', RCreate_AdminStateUp = None,
                    RCreate_Distributed = None, RCreate_TenantID = ''tenant-1'',
                    RCreate_GatewayInfo = None, RCreate_ValueSpecs = []\<rparr>,
                  RoutersGet ''router-1'', RoutersGet ''router-1'']\<rparr>) \<and>
   rt_enable_snat (rt_new snat_kept_data) = Some True \<and>
   rt_external_gateway (rt_new snat_kept_data) = [] \<and>
   resourceNetworkingRouterV2Update snat_kept_data example_cloud (start_remote [''ACTIVE''])
     = ((None, snat_kept_data
                  \<lparr>rt_new := example_router_attrs
                     \<lparr>rt_admin_state_up := Some True, rt_distributed := Some False,
                      rt_region := ''eu-de''\<rparr>\<rparr>),
        \<lparr>world = [],
         calls = [RoutersUpdate ''router-1''
                    \<lparr>RUpdate_Name = [], RUpdate_AdminStateUp = None,
                     RUpdate_GatewayInfo = Some \<lparr>NetworkID = [], EnableSNAT = None\<rparr>\<rparr>,
                  RoutersGet ''router-1'']\<rparr>)"
  by (simp add: resourceNetworkingRouterV2Create_def resourceNetworkingRouterV2Update_def
      routerCreateOpts_def GetOk_bool_def Get_bool_def resourceNetworkingRouterV2Read_def
      routerCreateStateConf_def WaitForState_def example_routers_Get waitForRouterActive_def Extract_def invoke_def
      start_remote_def Let_def example_router_def example_router_data_def
      example_router_attrs_def snat_false_data_def snat_kept_data_def is_ErrDefault404_def
      eval_nat_numeral example_cloud_def)

text \<open>
  C8 as amended.  With a networking client and an empty \<open>external_gateway\<close>: a Create
  whose \<open>enable_snat\<close> is set to true, and an Update whose \<open>enable_snat\<close> has changed,
  return the error "setting enable_snat requires external_gateway to be set" with the
  resource data as it was, and the remote side is left as it was: no API call is issued.
\<close>

theorem router_enable_snat_requires_gateway:
  assumes "NetworkingV2Client meta (GetRegion meta (rt_region (rt_new d))) = None"
    and "rt_external_gateway (rt_new d) = []"
  shows "(rt_enable_snat (rt_new d) = Some True \<longrightarrow>
            resourceNetworkingRouterV2Create d meta s =
              (Return (Some (Errorf ''setting enable_snat requires external_gateway to be set'' []), d), s)) \<and>
         (Get_bool (rt_enable_snat (rt_old d)) \<noteq> Get_bool (rt_enable_snat (rt_new d)) \<longrightarrow>
            resourceNetworkingRouterV2Update d meta s =
              ((Some (Errorf ''setting enable_snat requires external_gateway to be set'' []), d), s))"
proof (intro conjI impI)
  assume "rt_enable_snat (rt_new d) = Some True"
  then have "routerCreateOpts d =
      Return (Inl (Errorf ''setting enable_snat requires external_gateway to be set'' []))"
    using assms(2) by (simp add: routerCreateOpts_def GetOk_bool_def Get_bool_def Let_def)
  then show "resourceNetworkingRouterV2Create d meta s =
      (Return (Some (Errorf ''setting enable_snat requires external_gateway to be set'' []), d), s)"
    using assms(1) by (simp add: resourceNetworkingRouterV2Create_def)
next
  assume "Get_bool (rt_enable_snat (rt_old d)) \<noteq> Get_bool (rt_enable_snat (rt_new d))"
  then show "resourceNetworkingRouterV2Update d meta s =
      ((Some (Errorf ''setting enable_snat requires external_gateway to be set'' []), d), s)"
    using assms by (simp add: resourceNetworkingRouterV2Update_def Let_def)
qed

theorem router_enable_snat_requires_gateway_witness:
  "NetworkingV2Client example_cloud (GetRegion example_cloud (rt_region (rt_new snat_true_data))) = None \<and>
   rt_external_gateway (rt_new snat_true_data) = [] \<and>
   rt_enable_snat (rt_new snat_true_data) = Some True \<and>
   Get_bool (rt_enable_snat (rt_old snat_true_data)) \<noteq> Get_bool (rt_enable_snat (rt_new snat_true_data)) \<and>
   resourceNetworkingRouterV2Create snat_true_data example_cloud (start_remote [''ACTIVE'']) =
     (Return (Some (Errorf ''setting enable_snat requires external_gateway to be set'' []), snat_true_data),
      start_remote [''ACTIVE'']) \<and>
   resourceNetworkingRouterV2Update snat_true_data example_cloud (start_remote [''ACTIVE'']) =
     ((Some (Errorf ''setting enable_snat requires external_gateway to be set'' []), snat_true_data),
      start_remote [''ACTIVE''])"
proof -
  have c: "NetworkingV2Client example_cloud (GetRegion example_cloud (rt_region (rt_new snat_true_data))) = None"
    by (simp add: example_cloud_def)
  have g: "rt_external_gateway (rt_new snat_true_data) = []"
    by (simp add: snat_true_data_def example_router_attrs_def)
  have e: "rt_enable_snat (rt_new snat_true_data) = Some True"
    by (simp add: snat_true_data_def)
  have h: "Get_bool (rt_enable_snat (rt_old snat_true_data)) \<noteq> Get_bool (rt_enable_snat (rt_new snat_true_data))"
    by (simp add: snat_true_data_def example_router_data_def example_router_attrs_def Get_bool_def)
  show ?thesis
    using router_enable_snat_requires_gateway[OF c g, of "start_remote [''ACTIVE'']"] c g e h
    by simp
qed

section \<open>Read on a missing resource\<close>

lemma router_Read_Get_error:
  assumes "NetworkingV2Client meta (GetRegion meta (rt_region (rt_new d))) = None"
    and "routers_Get meta (rt_Id d) (world s) = (Inl err, w1)"
  shows "resourceNetworkingRouterV2Read d meta s =
           ((if err = ErrDefault404 then (None, d\<lparr>rt_Id := []\<rparr>)
             else (Some (Errorf ''error retrieving OpenTelekomCloud Neutron Router: %s'' [err]), d)),
            \<lparr>world = w1, calls = calls s @ [RoutersGet (rt_Id d)]\<rparr>)"
  using assms by (simp add: resourceNetworkingRouterV2Read_def invoke_def is_ErrDefault404_def)

lemma sfs_Read_Get_error:
  assumes "SfsV2Client meta (GetRegion meta (sfs_region d)) = None"
    and "shares_Get meta (sfs_Id d) (world s) = (Inl err, w1)"
  shows "resourceSFSFileSystemV2Read d meta s =
           ((if err = ErrDefault404 then (None, d\<lparr>sfs_Id := []\<rparr>)
             else (Some (Errorf ''error retrieving OpenTelekomCloud Shares: %s'' [err]), d)),
            \<lparr>world = w1, calls = calls s @ [SharesGet (sfs_Id d)]\<rparr>)"
  using assms by (simp add: resourceSFSFileSystemV2Read_def invoke_def is_ErrDefault404_def)

lemma waf_Read_Get_error:
  assumes "WafV1Client meta (GetRegion meta []) = None"
    and "precise_Get meta (waf_policy_id d) (waf_Id d) (world s) = (Inl err, w1)"
  shows "resourceWafPreciseProtectionRuleV1Read d meta s =
           ((if err = ErrDefault404 then (None, d\<lparr>waf_Id := []\<rparr>)
             else (Some (Errorf ''error retrieving OpenTelekomCloud Waf Precise Protection Rule: %s'' [err]), d)),
            \<lparr>world = w1, calls = calls s @ [PreciseGet (waf_policy_id d) (waf_Id d)]\<rparr>)"
  using assms
  by (simp add: resourceWafPreciseProtectionRuleV1Read_def invoke_def is_ErrDefault404_def Let_def)

text \<open>
  C9.  For each of the three resources: when Read has its client and the \<open>Get\<close> call fails
  with the error \<open>err\<close>, then for a 404 Read clears the resource ID and returns no error,
  and for every other error Read returns an error that wraps \<open>err\<close> and leaves the
  resource data, with its ID, as it was.
\<close>

theorem read_not_found_clears_id:
  "(NetworkingV2Client meta (GetRegion meta (rt_region (rt_new rd))) = None \<and>
    routers_Get meta (rt_Id rd) (world s) = (Inl err, w1) \<longrightarrow>
      fst (resourceNetworkingRouterV2Read rd meta s) =
        (if err = ErrDefault404 then (None, rd\<lparr>rt_Id := []\<rparr>)
         else (Some (Errorf ''error retrieving OpenTelekomCloud Neutron Router: %s'' [err]), rd))) \<and>
   (SfsV2Client meta (GetRegion meta (sfs_region sd)) = None \<and>
    shares_Get meta (sfs_Id sd) (world s) = (Inl err, w1) \<longrightarrow>
      fst (resourceSFSFileSystemV2Read sd meta s) =
        (if err = ErrDefault404 then (None, sd\<lparr>sfs_Id := []\<rparr>)
         else (Some (Errorf ''error retrieving OpenTelekomCloud Shares: %s'' [err]), sd))) \<and>
   (WafV1Client meta (GetRegion meta []) = None \<and>
    precise_Get meta (waf_policy_id wd) (waf_Id wd) (world s) = (Inl err, w1) \<longrightarrow>
      fst (resourceWafPreciseProtectionRuleV1Read wd meta s) =
        (if err = ErrDefault404 then (None, wd\<lparr>waf_Id := []\<rparr>)
         else (Some (Errorf ''error retrieving OpenTelekomCloud Waf Precise Protection Rule: %s'' [err]), wd)))"
  by (simp add: router_Read_Get_error sfs_Read_Get_error waf_Read_Get_error)

theorem read_not_found_clears_id_witness:
  "fst (resourceNetworkingRouterV2Read (example_router_data\<lparr>rt_Id := ''router-1''\<rparr>) example_cloud (start_remote []))
     = (None, example_router_data\<lparr>rt_Id := []\<rparr>) \<and>
   fst (resourceSFSFileSystemV2Read (example_share_data\<lparr>sfs_Id := ''share-1''\<rparr>) example_cloud (start_remote []))
     = (None, example_share_data\<lparr>sfs_Id := []\<rparr>) \<and>
   fst (resourceWafPreciseProtectionRuleV1Read (example_rule_data\<lparr>waf_Id := ''rule-1''\<rparr>) example_cloud (start_remote []))
     = (None, example_rule_data\<lparr>waf_Id := []\<rparr>) \<and>
   fst (resourceNetworkingRouterV2Read (example_router_data\<lparr>rt_Id := ''router-1''\<rparr>) failing_cloud (start_remote []))
     = (Some (Errorf ''error retrieving OpenTelekomCloud Neutron Router: %s'' [ErrOther ''HTTP 500'']),
        example_router_data\<lparr>rt_Id := ''router-1''\<rparr>) \<and>
   fst (resourceSFSFileSystemV2Read (example_share_data\<lparr>sfs_Id := ''share-1''\<rparr>) failing_cloud (start_remote []))
     = (Some (Errorf ''error retrieving OpenTelekomCloud Shares: %s'' [ErrOther ''HTTP 500'']),
        example_share_data\<lparr>sfs_Id := ''share-1''\<rparr>) \<and>
   fst (resourceWafPreciseProtectionRuleV1Read (example_rule_data\<lparr>waf_Id := ''rule-1''\<rparr>) failing_cloud (start_remote []))
     = (Some (Errorf ''error retrieving OpenTelekomCloud Waf Precise Protection Rule: %s'' [ErrOther ''HTTP 500'']),
        example_rule_data\<lparr>waf_Id := ''rule-1''\<rparr>)"
proof -
  have gone:
    "NetworkingV2Client example_cloud (GetRegion example_cloud (rt_region (rt_new (example_router_data\<lparr>rt_Id := ''router-1''\<rparr>)))) = None"
    "routers_Get example_cloud (rt_Id (example_router_data\<lparr>rt_Id := ''router-1''\<rparr>)) (world (start_remote [])) = (Inl ErrDefault404, [])"
    "SfsV2Client example_cloud (GetRegion example_cloud (sfs_region (example_share_data\<lparr>sfs_Id := ''share-1''\<rparr>))) = None"
    "shares_Get example_cloud (sfs_Id (example_share_data\<lparr>sfs_Id := ''share-1''\<rparr>)) (world (start_remote [])) = (Inl ErrDefault404, [])"
    "WafV1Client example_cloud (GetRegion example_cloud []) = None"
    "precise_Get example_cloud (waf_policy_id (example_rule_data\<lparr>waf_Id := ''rule-1''\<rparr>))
       (waf_Id (example_rule_data\<lparr>waf_Id := ''rule-1''\<rparr>)) (world (start_remote [])) = (Inl ErrDefault404, [])"
    by (simp_all add: example_cloud_def start_remote_def)
  have broken:
    "NetworkingV2Client failing_cloud (GetRegion failing_cloud (rt_region (rt_new (example_router_data\<lparr>rt_Id := ''router-1''\<rparr>)))) = None"
    "routers_Get failing_cloud (rt_Id (example_router_data\<lparr>rt_Id := ''router-1''\<rparr>)) (world (start_remote [])) = (Inl (ErrOther ''HTTP 500''), [])"
    "SfsV2Client failing_cloud (GetRegion failing_cloud (sfs_region (example_share_data\<lparr>sfs_Id := ''share-1''\<rparr>))) = None"
    "shares_Get failing_cloud (sfs_Id (example_share_data\<lparr>sfs_Id := ''share-1''\<rparr>)) (world (start_remote [])) = (Inl (ErrOther ''HTTP 500''), [])"
    "WafV1Client failing_cloud (GetRegion failing_cloud []) = None"
    "precise_Get failing_cloud (waf_policy_id (example_rule_data\<lparr>waf_Id := ''rule-1''\<rparr>))
       (waf_Id (example_rule_data\<lparr>waf_Id := ''rule-1''\<rparr>)) (world (start_remote [])) = (Inl (ErrOther ''HTTP 500''), [])"
    by (simp_all add: failing_cloud_def example_cloud_def start_remote_def)
  note a = read_not_found_clears_id[of example_cloud "example_router_data\<lparr>rt_Id := ''router-1''\<rparr>"
      "start_remote []" ErrDefault404 "[]" "example_share_data\<lparr>sfs_Id := ''share-1''\<rparr>"
      "example_rule_data\<lparr>waf_Id := ''rule-1''\<rparr>"]
  note b = read_not_found_clears_id[of failing_cloud "example_router_data\<lparr>rt_Id := ''router-1''\<rparr>"
      "start_remote []" "ErrOther ''HTTP 500''" "[]" "example_share_data\<lparr>sfs_Id := ''share-1''\<rparr>"
      "example_rule_data\<lparr>waf_Id := ''rule-1''\<rparr>"]
  from a gone b broken show ?thesis by simp
qed

section \<open>SFS file share: properties\<close>

lemma user_metadata_lookup:
  assumes "distinct (map fst kvs)"
  shows "map_of (user_metadata kvs acc) k =
           (if k \<in> fst ` set kvs \<and>
               \<not> (prefix ''#sfs'' k \<or> sublist ''enterprise_project_id'' k \<or> sublist ''share_used'' k)
            then map_of kvs k else map_of acc k)"
  using assms
proof (induction kvs arbitrary: acc k)
  case Nil
  show ?case by simp
next
  case (Cons kv kvs)
  obtain key val where kv: "kv = (key, val)" by (cases kv)
  from Cons.prems kv have notin: "key \<notin> fst ` set kvs" and dist: "distinct (map fst kvs)"
    by auto
  note IH = Cons.IH[OF dist]
  show ?case
    using notin by (auto simp: kv IH update_conv')
qed

lemma user_metadata_distinct:
  "distinct (map fst acc) \<Longrightarrow> distinct (map fst (user_metadata kvs acc))"
  by (induction kvs acc rule: user_metadata.induct) (simp_all add: distinct_update)

lemma sfs_Read_metadata:
  assumes "SfsV2Client meta (GetRegion meta (sfs_region d)) = None"
    and "shares_Get meta (sfs_Id d) (world s) = (Inr share, w1)"
  shows "sfs_metadata (snd (fst (resourceSFSFileSystemV2Read d meta s))) =
           user_metadata (Share_Metadata share) []"
  using assms
  by (simp add: resourceSFSFileSystemV2Read_def invoke_def Let_def
           split: prod.splits sum.splits list.splits)

text \<open>
  C10.  When \<open>resourceSFSFileSystemV2Read\<close> has its client and the API returns the share,
  the metadata map in the state has a value for a key exactly if the response's metadata
  has one and the key neither starts with "#sfs" nor contains "enterprise_project_id" or
  "share_used"; the value is the response's value.  This holds whatever the later listing
  of the access rules returns.
\<close>

theorem sfs_read_user_metadata:
  assumes "SfsV2Client meta (GetRegion meta (sfs_region d)) = None"
    and "shares_Get meta (sfs_Id d) (world s) = (Inr share, w1)"
    and "distinct (map fst (Share_Metadata share))"
  shows "map_of (sfs_metadata (snd (fst (resourceSFSFileSystemV2Read d meta s)))) k =
           (if prefix ''#sfs'' k \<or> sublist ''enterprise_project_id'' k \<or> sublist ''share_used'' k
            then None else map_of (Share_Metadata share) k) \<and>
         distinct (map fst (sfs_metadata (snd (fst (resourceSFSFileSystemV2Read d meta s)))))"
proof -
  have m: "sfs_metadata (snd (fst (resourceSFSFileSystemV2Read d meta s))) =
             user_metadata (Share_Metadata share) []"
    using assms(1,2) by (rule sfs_Read_metadata)
  have "map_of (Share_Metadata share) k = None" if "k \<notin> fst ` set (Share_Metadata share)"
    using that by (simp add: map_of_eq_None_iff)
  then show ?thesis
    unfolding m using user_metadata_lookup[OF assms(3), of "[]" k]
    by (auto simp: user_metadata_distinct)
qed

theorem sfs_read_user_metadata_witness:
  "sfs_metadata (snd (fst (resourceSFSFileSystemV2Read (example_share_data\<lparr>sfs_Id := ''share-1''\<rparr>)
                             example_cloud (start_remote [''available''])))) = [(''team'', ''storage'')] \<and>
   map_of (sfs_metadata (snd (fst (resourceSFSFileSystemV2Read (example_share_data\<lparr>sfs_Id := ''share-1''\<rparr>)
                             example_cloud (start_remote [''available'']))))) ''team''
     = map_of (Share_Metadata (example_share ''available'')) ''team'' \<and>
   map_of (sfs_metadata (snd (fst (resourceSFSFileSystemV2Read (example_share_data\<lparr>sfs_Id := ''share-1''\<rparr>)
                             example_cloud (start_remote [''available'']))))) ''x_share_used'' = None \<and>
   map_of (Share_Metadata (example_share ''available'')) ''x_share_used'' = Some ''1''"
proof -
  have c: "SfsV2Client example_cloud (GetRegion example_cloud (sfs_region (example_share_data\<lparr>sfs_Id := ''share-1''\<rparr>))) = None"
    by (simp add: example_cloud_def)
  have g: "shares_Get example_cloud (sfs_Id (example_share_data\<lparr>sfs_Id := ''share-1''\<rparr>))
             (world (start_remote [''available''])) = (Inr (example_share ''available''), [])"
    by (simp add: example_cloud_def start_remote_def)
  have dd: "distinct (map fst (Share_Metadata (example_share ''available'')))"
    by (simp add: example_share_def)
  have ev: "sfs_metadata (snd (fst (resourceSFSFileSystemV2Read (example_share_data\<lparr>sfs_Id := ''share-1''\<rparr>)
                             example_cloud (start_remote [''available''])))) = [(''team'', ''storage'')]"
    unfolding sfs_Read_metadata[OF c g] by (simp add: example_share_def sublist_code)
  have k1: "\<not> (prefix ''#sfs'' ''team'' \<or> sublist ''enterprise_project_id'' ''team'' \<or> sublist ''share_used'' ''team'')"
    by (simp add: sublist_code)
  have k2: "sublist ''share_used'' ''x_share_used''"
    by (simp add: sublist_code)
  have t: "map_of (Share_Metadata (example_share ''available'')) ''x_share_used'' = Some ''1''"
    by (simp add: example_share_def)
  from sfs_read_user_metadata[OF c g dd, of "''team''"] k1
  have a: "map_of (sfs_metadata (snd (fst (resourceSFSFileSystemV2Read (example_share_data\<lparr>sfs_Id := ''share-1''\<rparr>)
                             example_cloud (start_remote [''available'']))))) ''team''
     = map_of (Share_Metadata (example_share ''available'')) ''team''"
    by presburger
  from sfs_read_user_metadata[OF c g dd, of "''x_share_used''"] k2
  have b: "map_of (sfs_metadata (snd (fst (resourceSFSFileSystemV2Read (example_share_data\<lparr>sfs_Id := ''share-1''\<rparr>)
                             example_cloud (start_remote [''available'']))))) ''x_share_used'' = None"
    by presburger
  from ev a b t show ?thesis by blast
qed

section \<open>Refresh functions of the delete and create waits\<close>

lemma waitForRouterDelete_no_panic: "fst (waitForRouterDelete meta routerId s) \<noteq> Panic"
  by (auto simp: waitForRouterDelete_def Extract_def invoke_def
           split: prod.splits sum.splits option.splits)

lemma waitForSFSFileStatus_no_panic: "fst (waitForSFSFileStatus meta shareID s) \<noteq> Panic"
  by (auto simp: waitForSFSFileStatus_def Extract_def invoke_def
           split: prod.splits sum.splits option.splits)

lemma waitForSFSFileStatus_calls:
  "calls (snd (waitForSFSFileStatus meta shareID s)) = calls s @ [SharesGet shareID]"
  by (auto simp: waitForSFSFileStatus_def Extract_def invoke_def
           split: prod.splits sum.splits option.splits)

lemma waitForRouterDelete_Get_404:
  assumes "routers_Get meta routerId (world s) = (Inl ErrDefault404, w1)"
  shows "waitForRouterDelete meta routerId s =
           (Return (IVal None, ''DELETED'', None),
            \<lparr>world = w1, calls = calls s @ [RoutersGet routerId]\<rparr>)"
  using assms by (simp add: waitForRouterDelete_def Extract_def invoke_def is_ErrDefault404_def)

lemma waitForRouterDelete_Delete_404:
  assumes "routers_Get meta routerId (world s) = (Inr n, w1)"
    and "routers_Delete meta routerId w1 = (Some ErrDefault404, w2)"
  shows "waitForRouterDelete meta routerId s =
           (Return (IVal (Some n), ''DELETED'', None),
            \<lparr>world = w2, calls = calls s @ [RoutersGet routerId, RoutersDelete routerId]\<rparr>)"
  using assms by (simp add: waitForRouterDelete_def Extract_def invoke_def is_ErrDefault404_def)

lemma waitForRouterDelete_DELETED:
  assumes "waitForRouterDelete meta routerId s = (Return (res, ''DELETED'', err), s1)"
  shows "err = None \<and>
         (fst (routers_Get meta routerId (world s)) = Inl ErrDefault404 \<or>
          (\<exists>n w1. routers_Get meta routerId (world s) = (Inr n, w1) \<and>
                  fst (routers_Delete meta routerId w1) = Some ErrDefault404))"
  using assms
  by (auto simp: waitForRouterDelete_def Extract_def invoke_def is_ErrDefault404_def
           split: prod.splits sum.splits option.splits if_splits)

lemma waitForSFSFileStatus_Get_404:
  assumes "shares_Get meta shareID (world s) = (Inl ErrDefault404, w1)"
  shows "waitForSFSFileStatus meta shareID s =
           (Return (IVal None, ''deleted'', None),
            \<lparr>world = w1, calls = calls s @ [SharesGet shareID]\<rparr>)"
  using assms by (simp add: waitForSFSFileStatus_def Extract_def invoke_def is_ErrDefault404_def)

lemma waitForSFSFileStatus_status:
  assumes "waitForSFSFileStatus meta shareID s = (Return (res, st, None), s1)"
  shows "(fst (shares_Get meta shareID (world s)) = Inl ErrDefault404 \<and> st = ''deleted'') \<or>
         (\<exists>share. fst (shares_Get meta shareID (world s)) = Inr share \<and> st = Share_Status share)"
  using assms
  by (auto simp: waitForSFSFileStatus_def Extract_def invoke_def is_ErrDefault404_def
           split: prod.splits sum.splits option.splits if_splits)

lemma router_delete_wait_returns:
  "\<exists>res werr. fst (WaitForState (routerDeleteStateConf d meta) s) = Return (res, werr)"
proof -
  have "fst (refresh_loop (routerDeleteStateConf d meta) n 0 s) \<noteq> Panic" for n
    by (rule refresh_loop_no_panic) (simp add: routerDeleteStateConf_def waitForRouterDelete_no_panic)
  then show ?thesis
    unfolding WaitForState_def
    by (cases "fst (refresh_loop (routerDeleteStateConf d meta) (Timeout (routerDeleteStateConf d meta)) 0 s)") auto
qed

lemma share_wait_returns:
  assumes "Refresh conf = waitForSFSFileStatus meta shareID"
  shows "\<exists>res werr. fst (WaitForState conf s) = Return (res, werr)"
proof -
  have "fst (refresh_loop conf n 0 s) \<noteq> Panic" for n
    by (rule refresh_loop_no_panic) (simp add: assms waitForSFSFileStatus_no_panic)
  then show ?thesis
    unfolding WaitForState_def
    by (cases "fst (refresh_loop conf (Timeout conf) 0 s)") auto
qed

lemma share_wait_calls:
  assumes "Refresh conf = waitForSFSFileStatus meta shareID"
  shows "\<exists>cs. calls (snd (WaitForState conf s)) = calls s @ cs \<and> set cs \<subseteq> {SharesGet shareID}"
  unfolding WaitForState_def
  by (rule refresh_loop_calls) (simp add: assms waitForSFSFileStatus_calls)

text \<open>
  C7.  Router: with a networking client, the wait of \<open>resourceNetworkingRouterV2Delete\<close>
  returns, and Delete clears the resource ID and returns no error exactly when the wait
  returned no error; when the wait failed or timed out Delete returns an error wrapping
  the wait's error, with the resource data and its ID as they were.  The wait succeeds
  only when its last refresh reported DELETED, which the refresh function does exactly
  when \<open>Get\<close>, or \<open>Delete\<close> after a successful \<open>Get\<close>, answered 404; and it does succeed when
  the first \<open>Get\<close> answers 404 within the timeout.

  File share: with an SFS client, when the up-front delete call fails the wait is not
  run and Delete returns an error with the ID as it was; when it succeeds the wait
  returns, and Delete clears the ID and returns no error exactly when the wait returned no
  error, and returns an error with the ID as it was otherwise.  The wait succeeds only
  when its last refresh reported "deleted": its \<open>Get\<close> answered 404, or returned a share of
  status "deleted".

  Without a client, either Delete returns an error before any call, with the ID as it
  was.
\<close>

theorem delete_clears_id_iff_wait_succeeds:
  "(NetworkingV2Client meta (GetRegion meta (rt_region (rt_new rd))) = None \<and>
    WaitForState (routerDeleteStateConf rd meta) s = (wres, s1) \<longrightarrow>
      (\<exists>res werr. wres = Return (res, werr) \<and>
         resourceNetworkingRouterV2Delete rd meta s =
           (Return (case werr of
                      None \<Rightarrow> (None, rd\<lparr>rt_Id := []\<rparr>)
                    | Some err \<Rightarrow> (Some (Errorf ''error deleting OpenTelekomCloud Neutron Router: %s'' [err]), rd)),
            s1) \<and>
         (werr = None \<longrightarrow>
            (\<exists>s0. waitForRouterDelete meta (rt_Id rd) s0 = (Return (res, ''DELETED'', None), s1) \<and>
                  (fst (routers_Get meta (rt_Id rd) (world s0)) = Inl ErrDefault404 \<or>
                   (\<exists>n w1. routers_Get meta (rt_Id rd) (world s0) = (Inr n, w1) \<and>
                           fst (routers_Delete meta (rt_Id rd) w1) = Some ErrDefault404))))) \<and>
      (0 < rt_timeout_delete rd \<and> fst (routers_Get meta (rt_Id rd) (world s)) = Inl ErrDefault404 \<longrightarrow>
         wres = Return (IVal None, None))) \<and>
   (SfsV2Client meta (GetRegion meta (sfs_region sd)) = None \<and>
    shares_Delete meta (sfs_Id sd) (world t) = (derr, v1) \<and>
    t1 = \<lparr>world = v1, calls = calls t @ [SharesDelete (sfs_Id sd)]\<rparr> \<and>
    WaitForState (shareDeleteStateConf sd meta) t1 = (vres, t2) \<longrightarrow>
      (\<forall>err. derr = Some err \<longrightarrow>
         resourceSFSFileSystemV2Delete sd meta t =
           (Return (Some (Errorf ''error deleting OpenTelekomCloud Shared File: %s'' [err]), sd), t1)) \<and>
      (derr = None \<longrightarrow>
         (\<exists>res werr. vres = Return (res, werr) \<and>
            resourceSFSFileSystemV2Delete sd meta t =
              (Return (case werr of
                         None \<Rightarrow> (None, sd\<lparr>sfs_Id := []\<rparr>)
                       | Some err \<Rightarrow> (Some (Errorf ''error deleting OpenTelekomCloud Share File: %s'' [err]), sd)),
               t2) \<and>
            (werr = None \<longrightarrow>
               (\<exists>t0. waitForSFSFileStatus meta (sfs_Id sd) t0 = (Return (res, ''deleted'', None), t2) \<and>
                     (fst (shares_Get meta (sfs_Id sd) (world t0)) = Inl ErrDefault404 \<or>
                      (\<exists>share. fst (shares_Get meta (sfs_Id sd) (world t0)) = Inr share \<and>
                               Share_Status share = ''deleted''))))))) \<and>
   (\<forall>e. NetworkingV2Client meta (GetRegion meta (rt_region (rt_new rd))) = Some e \<longrightarrow>
      resourceNetworkingRouterV2Delete rd meta s =
        (Return (Some (Errorf ''error creating OpenTelekomCloud networking client: %s'' [e]), rd), s)) \<and>
   (\<forall>e. SfsV2Client meta (GetRegion meta (sfs_region sd)) = Some e \<longrightarrow>
      resourceSFSFileSystemV2Delete sd meta t =
        (Return (Some (Errorf ''error creating OpenTelekomCloud Shared File: %s'' [e]), sd), t))"
proof (intro conjI impI allI; (elim conjE)?)
  assume client: "NetworkingV2Client meta (GetRegion meta (rt_region (rt_new rd))) = None"
    and wait: "WaitForState (routerDeleteStateConf rd meta) s = (wres, s1)"
  from router_delete_wait_returns[of rd meta s] wait
  obtain res werr where wres: "wres = Return (res, werr)" by auto
  have del: "resourceNetworkingRouterV2Delete rd meta s =
           (Return (case werr of
                      None \<Rightarrow> (None, rd\<lparr>rt_Id := []\<rparr>)
                    | Some err \<Rightarrow> (Some (Errorf ''error deleting OpenTelekomCloud Neutron Router: %s'' [err]), rd)),
            s1)"
    using client wait wres
    by (cases werr) (simp_all add: resourceNetworkingRouterV2Delete_def Let_def)
  have last: "\<exists>s0. waitForRouterDelete meta (rt_Id rd) s0 = (Return (res, ''DELETED'', None), s1) \<and>
                  (fst (routers_Get meta (rt_Id rd) (world s0)) = Inl ErrDefault404 \<or>
                   (\<exists>n w1. routers_Get meta (rt_Id rd) (world s0) = (Inr n, w1) \<and>
                           fst (routers_Delete meta (rt_Id rd) w1) = Some ErrDefault404))"
    if "werr = None"
  proof -
    from wait wres that
    have "refresh_loop (routerDeleteStateConf rd meta) (rt_timeout_delete rd) 0 s = (Return (res, None), s1)"
      by (simp add: WaitForState_def routerDeleteStateConf_def)
    from refresh_loop_success[OF this]
    obtain s0 where r: "waitForRouterDelete meta (rt_Id rd) s0 = (Return (res, ''DELETED'', None), s1)"
      by (auto simp: routerDeleteStateConf_def)
    from waitForRouterDelete_DELETED[OF r] r show ?thesis by blast
  qed
  show "\<exists>res werr. wres = Return (res, werr) \<and>
         resourceNetworkingRouterV2Delete rd meta s =
           (Return (case werr of
                      None \<Rightarrow> (None, rd\<lparr>rt_Id := []\<rparr>)
                    | Some err \<Rightarrow> (Some (Errorf ''error deleting OpenTelekomCloud Neutron Router: %s'' [err]), rd)),
            s1) \<and>
         (werr = None \<longrightarrow>
            (\<exists>s0. waitForRouterDelete meta (rt_Id rd) s0 = (Return (res, ''DELETED'', None), s1) \<and>
                  (fst (routers_Get meta (rt_Id rd) (world s0)) = Inl ErrDefault404 \<or>
                   (\<exists>n w1. routers_Get meta (rt_Id rd) (world s0) = (Inr n, w1) \<and>
                           fst (routers_Delete meta (rt_Id rd) w1) = Some ErrDefault404))))"
    using wres del last by blast
next
  assume wait: "WaitForState (routerDeleteStateConf rd meta) s = (wres, s1)"
    and pos: "0 < rt_timeout_delete rd"
    and gone: "fst (routers_Get meta (rt_Id rd) (world s)) = Inl ErrDefault404"
  obtain w1 where g: "routers_Get meta (rt_Id rd) (world s) = (Inl ErrDefault404, w1)"
    using gone by (cases "routers_Get meta (rt_Id rd) (world s)") auto
  obtain n where n: "rt_timeout_delete rd = Suc n" using pos by (cases "rt_timeout_delete rd") auto
  show "wres = Return (IVal None, None)"
    using wait waitForRouterDelete_Get_404[OF g]
    by (simp add: WaitForState_def routerDeleteStateConf_def n)
next
  fix err
  assume "SfsV2Client meta (GetRegion meta (sfs_region sd)) = None"
    and "shares_Delete meta (sfs_Id sd) (world t) = (derr, v1)"
    and "t1 = \<lparr>world = v1, calls = calls t @ [SharesDelete (sfs_Id sd)]\<rparr>"
    and "derr = Some err"
  then show "resourceSFSFileSystemV2Delete sd meta t =
           (Return (Some (Errorf ''error deleting OpenTelekomCloud Shared File: %s'' [err]), sd), t1)"
    by (simp add: resourceSFSFileSystemV2Delete_def invoke_def)
next
  assume client: "SfsV2Client meta (GetRegion meta (sfs_region sd)) = None"
    and dl: "shares_Delete meta (sfs_Id sd) (world t) = (derr, v1)"
    and t1: "t1 = \<lparr>world = v1, calls = calls t @ [SharesDelete (sfs_Id sd)]\<rparr>"
    and wait: "WaitForState (shareDeleteStateConf sd meta) t1 = (vres, t2)"
    and ok: "derr = None"
  have rf: "Refresh (shareDeleteStateConf sd meta) = waitForSFSFileStatus meta (sfs_Id sd)"
    by (simp add: shareDeleteStateConf_def)
  from share_wait_returns[OF rf, of t1] wait
  obtain res werr where vres: "vres = Return (res, werr)" by auto
  have del: "resourceSFSFileSystemV2Delete sd meta t =
              (Return (case werr of
                         None \<Rightarrow> (None, sd\<lparr>sfs_Id := []\<rparr>)
                       | Some err \<Rightarrow> (Some (Errorf ''error deleting OpenTelekomCloud Share File: %s'' [err]), sd)),
               t2)"
    using client dl t1 wait vres ok
    by (cases werr) (simp_all add: resourceSFSFileSystemV2Delete_def invoke_def Let_def)
  have last: "\<exists>t0. waitForSFSFileStatus meta (sfs_Id sd) t0 = (Return (res, ''deleted'', None), t2) \<and>
                     (fst (shares_Get meta (sfs_Id sd) (world t0)) = Inl ErrDefault404 \<or>
                      (\<exists>share. fst (shares_Get meta (sfs_Id sd) (world t0)) = Inr share \<and>
                               Share_Status share = ''deleted''))"
    if "werr = None"
  proof -
    from wait vres that
    have "refresh_loop (shareDeleteStateConf sd meta) (sfs_timeout_delete sd) 0 t1 = (Return (res, None), t2)"
      by (simp add: WaitForState_def shareDeleteStateConf_def)
    from refresh_loop_success[OF this]
    obtain t0 where r: "waitForSFSFileStatus meta (sfs_Id sd) t0 = (Return (res, ''deleted'', None), t2)"
      by (auto simp: shareDeleteStateConf_def)
    from waitForSFSFileStatus_status[OF r] r show ?thesis by auto
  qed
  show "\<exists>res werr. vres = Return (res, werr) \<and>
            resourceSFSFileSystemV2Delete sd meta t =
              (Return (case werr of
                         None \<Rightarrow> (None, sd\<lparr>sfs_Id := []\<rparr>)
                       | Some err \<Rightarrow> (Some (Errorf ''error deleting OpenTelekomCloud Share File: %s'' [err]), sd)),
               t2) \<and>
            (werr = None \<longrightarrow>
               (\<exists>t0. waitForSFSFileStatus meta (sfs_Id sd) t0 = (Return (res, ''deleted'', None), t2) \<and>
                     (fst (shares_Get meta (sfs_Id sd) (world t0)) = Inl ErrDefault404 \<or>
                      (\<exists>share. fst (shares_Get meta (sfs_Id sd) (world t0)) = Inr share \<and>
                               Share_Status share = ''deleted''))))"
    using vres del last by blast
next
  fix e
  assume "NetworkingV2Client meta (GetRegion meta (rt_region (rt_new rd))) = Some e"
  then show "resourceNetworkingRouterV2Delete rd meta s =
        (Return (Some (Errorf ''error creating OpenTelekomCloud networking client: %s'' [e]), rd), s)"
    by (simp add: resourceNetworkingRouterV2Delete_def)
next
  fix e
  assume "SfsV2Client meta (GetRegion meta (sfs_region sd)) = Some e"
  then show "resourceSFSFileSystemV2Delete sd meta t =
        (Return (Some (Errorf ''error creating OpenTelekomCloud Shared File: %s'' [e]), sd), t)"
    by (simp add: resourceSFSFileSystemV2Delete_def)
qed

lemma example_shares_api:
  "shares_Get example_cloud sid (st # rest) = (Inr (example_share st), rest)"
  "shares_Get example_cloud sid [] = (Inl ErrDefault404, [])"
  "SfsV2Client example_cloud region = None"
  "shares_Create example_cloud opts w = (Inr (example_share ''creating''), w)"
  "shares_GrantAccess example_cloud sid gopts w = (Inr example_access, w)"
  "shares_ListAccessRights example_cloud sid w = (Inr [example_access], w)"
  "shares_Delete example_cloud sid w = (None, w)"
  by (simp_all add: example_cloud_def)

theorem delete_clears_id_iff_wait_succeeds_witness:
  "resourceNetworkingRouterV2Delete (example_router_data\<lparr>rt_Id := ''router-1''\<rparr>) example_cloud
       (start_remote [''ACTIVE''])
     = (Return (None, example_router_data\<lparr>rt_Id := []\<rparr>),
        \<lparr>world = [], calls = [RoutersGet ''router-1'', RoutersDelete ''router-1'', RoutersGet ''router-1'']\<rparr>) \<and>
   resourceNetworkingRouterV2Delete (example_router_data\<lparr>rt_Id := ''router-1''\<rparr>) failing_cloud
       (start_remote [''ACTIVE''])
     = (Return (Some (Errorf ''error deleting OpenTelekomCloud Neutron Router: %s'' [ErrOther ''HTTP 500'']),
                example_router_data\<lparr>rt_Id := ''router-1''\<rparr>),
        \<lparr>world = [''ACTIVE''], calls = [RoutersGet ''router-1'']\<rparr>) \<and>
   resourceSFSFileSystemV2Delete (example_share_data\<lparr>sfs_Id := ''share-1''\<rparr>) example_cloud
       (start_remote [''deleting''])
     = (Return (None, example_share_data\<lparr>sfs_Id := []\<rparr>),
        \<lparr>world = [], calls = [SharesDelete ''share-1'', SharesGet ''share-1'', SharesGet ''share-1'']\<rparr>) \<and>
   resourceSFSFileSystemV2Delete (example_share_data\<lparr>sfs_Id := ''share-1''\<rparr>) example_cloud
       (start_remote [''deleting'', ''error''])
     = (Return (Some (Errorf ''error deleting OpenTelekomCloud Share File: %s'' [UnexpectedStateError ''error'']),
                example_share_data\<lparr>sfs_Id := ''share-1''\<rparr>),
        \<lparr>world = [], calls = [SharesDelete ''share-1'', SharesGet ''share-1'', SharesGet ''share-1'']\<rparr>)"
proof -
  let ?rd = "example_router_data\<lparr>rt_Id := ''router-1''\<rparr>"
  let ?sd = "example_share_data\<lparr>sfs_Id := ''share-1''\<rparr>"
  have rc: "NetworkingV2Client example_cloud (GetRegion example_cloud (rt_region (rt_new ?rd))) = None"
    "NetworkingV2Client failing_cloud (GetRegion failing_cloud (rt_region (rt_new ?rd))) = None"
    by (simp_all add: example_cloud_def failing_cloud_def)
  have sc: "SfsV2Client example_cloud (GetRegion example_cloud (sfs_region ?sd)) = None"
    by (simp add: example_cloud_def)
  have w1: "WaitForState (routerDeleteStateConf ?rd example_cloud) (start_remote [''ACTIVE''])
      = (Return (IVal None, None),
         \<lparr>world = [], calls = [RoutersGet ''router-1'', RoutersDelete ''router-1'', RoutersGet ''router-1'']\<rparr>)"
    by (simp add: WaitForState_def routerDeleteStateConf_def waitForRouterDelete_def
        example_routers_Get Extract_def invoke_def start_remote_def is_ErrDefault404_def
        example_router_data_def eval_nat_numeral)
  have w2: "WaitForState (routerDeleteStateConf ?rd failing_cloud) (start_remote [''ACTIVE''])
      = (Return (IVal None, Some (ErrOther ''HTTP 500'')),
         \<lparr>world = [''ACTIVE''], calls = [RoutersGet ''router-1'']\<rparr>)"
    by (simp add: WaitForState_def routerDeleteStateConf_def waitForRouterDelete_def
        failing_routers_Get Extract_def invoke_def start_remote_def is_ErrDefault404_def
        example_router_data_def eval_nat_numeral)
  have dl: "shares_Delete example_cloud (sfs_Id ?sd) (world (start_remote [''deleting''])) = (None, [''deleting''])"
    "shares_Delete example_cloud (sfs_Id ?sd) (world (start_remote [''deleting'', ''error''])) = (None, [''deleting'', ''error''])"
    by (simp_all add: example_shares_api start_remote_def)
  have w3: "WaitForState (shareDeleteStateConf ?sd example_cloud)
              \<lparr>world = [''deleting''], calls = calls (start_remote [''deleting'']) @ [SharesDelete (sfs_Id ?sd)]\<rparr>
      = (Return (IVal None, None),
         \<lparr>world = [], calls = [SharesDelete ''share-1'', SharesGet ''share-1'', SharesGet ''share-1'']\<rparr>)"
    by (simp add: WaitForState_def shareDeleteStateConf_def waitForSFSFileStatus_def
        example_shares_api Extract_def invoke_def start_remote_def is_ErrDefault404_def
        example_share_data_def example_share_def eval_nat_numeral)
  have w4: "WaitForState (shareDeleteStateConf ?sd example_cloud)
              \<lparr>world = [''deleting'', ''error''],
               calls = calls (start_remote [''deleting'', ''error'']) @ [SharesDelete (sfs_Id ?sd)]\<rparr>
      = (Return (IVal (Some (example_share ''error'')), Some (UnexpectedStateError ''error'')),
         \<lparr>world = [], calls = [SharesDelete ''share-1'', SharesGet ''share-1'', SharesGet ''share-1'']\<rparr>)"
    by (simp add: WaitForState_def shareDeleteStateConf_def waitForSFSFileStatus_def
        example_shares_api Extract_def invoke_def start_remote_def is_ErrDefault404_def
        example_share_data_def example_share_def eval_nat_numeral)
  note a = delete_clears_id_iff_wait_succeeds[where meta = example_cloud and rd = ?rd
      and s = "start_remote [''ACTIVE'']" and sd = ?sd and t = "start_remote [''deleting'']",
      THEN conjunct1, rule_format, OF conjI, OF rc(1) w1, THEN conjunct1]
  note b = delete_clears_id_iff_wait_succeeds[where meta = failing_cloud and rd = ?rd
      and s = "start_remote [''ACTIVE'']" and sd = ?sd and t = "start_remote [''deleting'']",
      THEN conjunct1, rule_format, OF conjI, OF rc(2) w2, THEN conjunct1]
  note c = delete_clears_id_iff_wait_succeeds[where meta = example_cloud and rd = ?rd
      and s = "start_remote [''ACTIVE'']" and sd = ?sd and t = "start_remote [''deleting'']",
      THEN conjunct2, THEN conjunct1, rule_format, OF conjI, OF sc conjI, OF dl(1) conjI, OF refl w3,
      THEN conjunct2, rule_format, OF refl]
  note d = delete_clears_id_iff_wait_succeeds[where meta = example_cloud and rd = ?rd
      and s = "start_remote [''ACTIVE'']" and sd = ?sd and t = "start_remote [''deleting'', ''error'']",
      THEN conjunct2, THEN conjunct1, rule_format, OF conjI, OF sc conjI, OF dl(2) conjI, OF refl w4,
      THEN conjunct2, rule_format, OF refl]
  from a have "resourceNetworkingRouterV2Delete ?rd example_cloud (start_remote [''ACTIVE''])
     = (Return (None, ?rd\<lparr>rt_Id := []\<rparr>),
        \<lparr>world = [], calls = [RoutersGet ''router-1'', RoutersDelete ''router-1'', RoutersGet ''router-1'']\<rparr>)"
    by auto
  moreover from b have "resourceNetworkingRouterV2Delete ?rd failing_cloud (start_remote [''ACTIVE''])
     = (Return (Some (Errorf ''error deleting OpenTelekomCloud Neutron Router: %s'' [ErrOther ''HTTP 500'']), ?rd),
        \<lparr>world = [''ACTIVE''], calls = [RoutersGet ''router-1'']\<rparr>)"
    by auto
  moreover from c have "resourceSFSFileSystemV2Delete ?sd example_cloud (start_remote [''deleting''])
     = (Return (None, ?sd\<lparr>sfs_Id := []\<rparr>),
        \<lparr>world = [], calls = [SharesDelete ''share-1'', SharesGet ''share-1'', SharesGet ''share-1'']\<rparr>)"
    by auto
  moreover from d have "resourceSFSFileSystemV2Delete ?sd example_cloud (start_remote [''deleting'', ''error''])
     = (Return (Some (Errorf ''error deleting OpenTelekomCloud Share File: %s'' [UnexpectedStateError ''error'']), ?sd),
        \<lparr>world = [], calls = [SharesDelete ''share-1'', SharesGet ''share-1'', SharesGet ''share-1'']\<rparr>)"
    by auto
  ultimately show ?thesis by simp
qed

text \<open>
  C3.  Take a \<open>resourceSFSFileSystemV2Create\<close> that has its client and whose create call
  returned the share.  The wait for "available" runs next and returns.  When it returns an
  error, Create returns an error, the resource data and its ID are as they were, and no
  access rule has been granted.  When it succeeds, its last \<open>Get\<close> returned the share in
  status "available", and the access rule with the configured access_level, access_type
  and access_to is granted next; when the grant fails Create returns an error and the
  resource data and its ID are as they were; when it succeeds the ID is set to the
  share's ID and the result is that of Read.
\<close>

theorem sfs_create_waits_then_grants:
  assumes "SfsV2Client meta (GetRegion meta (sfs_region d)) = None"
    and "shares_Create meta (shareCreateOpts d) (world s) = (Inr share, w1)"
    and "s1 = \<lparr>world = w1, calls = calls s @ [SharesCreate (shareCreateOpts d)]\<rparr>"
    and "WaitForState (shareCreateStateConf d meta share) s1 = (wres, s2)"
    and "shares_GrantAccess meta (Share_ID share) (shareGrantAccessOpts d) (world s2) = (gres, w3)"
    and "s3 = \<lparr>world = w3, calls = calls s2 @ [SharesGrantAccess (Share_ID share) (shareGrantAccessOpts d)]\<rparr>"
  shows "(\<exists>res werr. wres = Return (res, werr)) \<and>
         (\<forall>res err. wres = Return (res, Some err) \<longrightarrow>
            resourceSFSFileSystemV2Create d meta s =
              (Return (Some (Errorf ''error applying access rules to share file: %s'' [err]), d), s2) \<and>
            (\<forall>sid opts. SharesGrantAccess sid opts \<notin> set (issued s s2))) \<and>
         (\<forall>res. wres = Return (res, None) \<longrightarrow>
            (\<exists>s0 sh. waitForSFSFileStatus meta (Share_ID share) s0 = (Return (res, ''available'', None), s2) \<and>
                      fst (shares_Get meta (Share_ID share) (world s0)) = Inr sh \<and>
                      Share_Status sh = ''available'') \<and>
            (\<forall>err. gres = Inl err \<longrightarrow>
               resourceSFSFileSystemV2Create d meta s =
                 (Return (Some (Errorf ''error applying access rules to share file: %s'' [err]), d), s3)) \<and>
            (\<forall>access. gres = Inr access \<longrightarrow>
               resourceSFSFileSystemV2Create d meta s =
                 (Return (fst (resourceSFSFileSystemV2Read (d\<lparr>sfs_Id := Share_ID share\<rparr>) meta s3)),
                  snd (resourceSFSFileSystemV2Read (d\<lparr>sfs_Id := Share_ID share\<rparr>) meta s3))))"
proof (intro conjI allI impI)
  have rf: "Refresh (shareCreateStateConf d meta share) = waitForSFSFileStatus meta (Share_ID share)"
    by (simp add: shareCreateStateConf_def)
  show "\<exists>res werr. wres = Return (res, werr)"
    using share_wait_returns[OF rf, of s1] assms(4) by auto
  {
    fix res err
    assume w: "wres = Return (res, Some err)"
    show "resourceSFSFileSystemV2Create d meta s =
              (Return (Some (Errorf ''error applying access rules to share file: %s'' [err]), d), s2)"
      using assms(1-4) w
      by (simp add: resourceSFSFileSystemV2Create_def invoke_def Let_def)
    fix sid opts
    from share_wait_calls[OF rf, of s1] assms(4)
    obtain cs where cs: "calls s2 = calls s1 @ cs" "set cs \<subseteq> {SharesGet (Share_ID share)}"
      by auto
    have "issued s s2 = SharesCreate (shareCreateOpts d) # cs"
      using cs(1) assms(3) by (simp add: issued_def)
    then show "SharesGrantAccess sid opts \<notin> set (issued s s2)"
      using cs(2) by auto
  }
  {
    fix res
    assume w: "wres = Return (res, None)"
    from assms(4) w
    have "refresh_loop (shareCreateStateConf d meta share) (sfs_timeout_create d) 0 s1 = (Return (res, None), s2)"
      by (simp add: WaitForState_def shareCreateStateConf_def)
    from refresh_loop_success[OF this]
    obtain s0 where r: "waitForSFSFileStatus meta (Share_ID share) s0 = (Return (res, ''available'', None), s2)"
      by (auto simp: shareCreateStateConf_def)
    from waitForSFSFileStatus_status[OF r] r
    show "\<exists>s0 sh. waitForSFSFileStatus meta (Share_ID share) s0 = (Return (res, ''available'', None), s2) \<and>
                      fst (shares_Get meta (Share_ID share) (world s0)) = Inr sh \<and>
                      Share_Status sh = ''available''"
      by auto
    {
      fix err
      assume "gres = Inl err"
      then show "resourceSFSFileSystemV2Create d meta s =
                 (Return (Some (Errorf ''error applying access rules to share file: %s'' [err]), d), s3)"
        using assms w
        by (simp add: resourceSFSFileSystemV2Create_def invoke_def Let_def)
    }
    {
      fix access
      assume "gres = Inr access"
      then show "resourceSFSFileSystemV2Create d meta s =
                 (Return (fst (resourceSFSFileSystemV2Read (d\<lparr>sfs_Id := Share_ID share\<rparr>) meta s3)),
                  snd (resourceSFSFileSystemV2Read (d\<lparr>sfs_Id := Share_ID share\<rparr>) meta s3))"
        using assms w
        by (simp add: resourceSFSFileSystemV2Create_def invoke_def Let_def split: prod.splits)
    }
  }
qed

theorem sfs_create_waits_then_grants_witness:
  "resourceSFSFileSystemV2Create example_share_data example_cloud
       (start_remote [''creating'', ''available'', ''available''])
     = (Return (fst (resourceSFSFileSystemV2Read (example_share_data\<lparr>sfs_Id := ''share-1''\<rparr>) example_cloud
                  \<lparr>world = [''available''],
                   calls = [SharesCreate (shareCreateOpts example_share_data),
                            SharesGet ''share-1'', SharesGet ''share-1'',
                            SharesGrantAccess ''share-1''
                              \<lparr>AccessLevel = ''rw'', AccessType = ''cert'', AccessTo = ''vpc-1''\<rparr>]\<rparr>)),
        snd (resourceSFSFileSystemV2Read (example_share_data\<lparr>sfs_Id := ''share-1''\<rparr>) example_cloud
                  \<lparr>world = [''available''],
                   calls = [SharesCreate (shareCreateOpts example_share_data),
                            SharesGet ''share-1'', SharesGet ''share-1'',
                            SharesGrantAccess ''share-1''
                              \<lparr>AccessLevel = ''rw'', AccessType = ''cert'', AccessTo = ''vpc-1''\<rparr>]\<rparr>)) \<and>
   resourceSFSFileSystemV2Create example_share_data example_cloud
       (start_remote [''creating'', ''error'', ''error''])
     = (Return (Some (Errorf ''error applying access rules to share file: %s'' [UnexpectedStateError ''error'']),
                example_share_data),
        \<lparr>world = [''error''],
         calls = [SharesCreate (shareCreateOpts example_share_data),
                  SharesGet ''share-1'', SharesGet ''share-1'']\<rparr>)"
proof -
  have c: "SfsV2Client example_cloud (GetRegion example_cloud (sfs_region example_share_data)) = None"
    by (simp add: example_shares_api)
  have cr: "shares_Create example_cloud (shareCreateOpts example_share_data) (world (start_remote w))
              = (Inr (example_share ''creating''), w)" for w
    by (simp add: example_shares_api start_remote_def)
  have wa: "WaitForState (shareCreateStateConf example_share_data example_cloud (example_share ''creating''))
              \<lparr>world = [''creating'', ''available'', ''available''],
               calls = calls (start_remote [''creating'', ''available'', ''available''])
                       @ [SharesCreate (shareCreateOpts example_share_data)]\<rparr>
      = (Return (IVal (Some (example_share ''available'')), None),
         \<lparr>world = [''available''],
          calls = [SharesCreate (shareCreateOpts example_share_data), SharesGet ''share-1'', SharesGet ''share-1'']\<rparr>)"
    by (simp add: WaitForState_def shareCreateStateConf_def waitForSFSFileStatus_def
        example_shares_api Extract_def invoke_def start_remote_def is_ErrDefault404_def
        example_share_data_def example_share_def eval_nat_numeral)
  have wb: "WaitForState (shareCreateStateConf example_share_data example_cloud (example_share ''creating''))
              \<lparr>world = [''creating'', ''error'', ''error''],
               calls = calls (start_remote [''creating'', ''error'', ''error''])
                       @ [SharesCreate (shareCreateOpts example_share_data)]\<rparr>
      = (Return (IVal (Some (example_share ''error'')), Some (UnexpectedStateError ''error'')),
         \<lparr>world = [''error''],
          calls = [SharesCreate (shareCreateOpts example_share_data), SharesGet ''share-1'', SharesGet ''share-1'']\<rparr>)"
    by (simp add: WaitForState_def shareCreateStateConf_def waitForSFSFileStatus_def
        example_shares_api Extract_def invoke_def start_remote_def is_ErrDefault404_def
        example_share_data_def example_share_def eval_nat_numeral)
  have gr: "shares_GrantAccess example_cloud (Share_ID (example_share ''creating''))
              (shareGrantAccessOpts example_share_data) (world \<lparr>world = w, calls = cs\<rparr>)
            = (Inr example_access, w)" for w cs
    by (simp add: example_shares_api)
  note a = sfs_create_waits_then_grants[OF c cr refl wa gr refl]
  note b = sfs_create_waits_then_grants[OF c cr refl wb gr refl]
  have ga: "shareGrantAccessOpts example_share_data
              = \<lparr>AccessLevel = ''rw'', AccessType = ''cert'', AccessTo = ''vpc-1''\<rparr>"
    "Share_ID (example_share ''creating'') = ''share-1''"
    by (simp_all add: shareGrantAccessOpts_def example_share_data_def example_share_def)
  from a have "resourceSFSFileSystemV2Create example_share_data example_cloud
       (start_remote [''creating'', ''available'', ''available''])
     = (Return (fst (resourceSFSFileSystemV2Read (example_share_data\<lparr>sfs_Id := Share_ID (example_share ''creating'')\<rparr>) example_cloud
                  \<lparr>world = [''available''],
                   calls = [SharesCreate (shareCreateOpts example_share_data),
                            SharesGet ''share-1'', SharesGet ''share-1'']
                           @ [SharesGrantAccess (Share_ID (example_share ''creating'')) (shareGrantAccessOpts example_share_data)]\<rparr>)),
        snd (resourceSFSFileSystemV2Read (example_share_data\<lparr>sfs_Id := Share_ID (example_share ''creating'')\<rparr>) example_cloud
                  \<lparr>world = [''available''],
                   calls = [SharesCreate (shareCreateOpts example_share_data),
                            SharesGet ''share-1'', SharesGet ''share-1'']
                           @ [SharesGrantAccess (Share_ID (example_share ''creating'')) (shareGrantAccessOpts example_share_data)]\<rparr>))"
    by simp
  moreover from b have "resourceSFSFileSystemV2Create example_share_data example_cloud
       (start_remote [''creating'', ''error'', ''error''])
     = (Return (Some (Errorf ''error applying access rules to share file: %s'' [UnexpectedStateError ''error'']),
                example_share_data),
        \<lparr>world = [''error''],
         calls = [SharesCreate (shareCreateOpts example_share_data),
                  SharesGet ''share-1'', SharesGet ''share-1'']\<rparr>)"
    by simp
  ultimately show ?thesis by (simp add: ga)
qed

end
